theory Spec2Isabelle
  imports Complex_Main "HOL-Library.Sublist" "HOL-Library.Char_ord" "HOL-Library.Monad_Syntax"
begin

section \<open>JavaScript primitives used by the analyzers\<close>

text \<open>
  Strings are lists of code units; the model covers the code units below 256. The numbers
  that the impact score runs through are small multiples of one quarter (products of
  0, 1, 2, 3 with 0.5, 2, 3, 1.5 and 3), all of them exact in IEEE double precision, so
  they are modelled as rationals. \<^verbatim>\<open>Math.round\<close> rounds to the nearest integer, a tie
  towards plus infinity.
\<close>

definition js_round :: "rat \<Rightarrow> int" where
  "js_round x = \<lfloor>x + 1 / 2\<rfloor>"

text \<open>\<^verbatim>\<open>s.includes(sub)\<close>: \<^verbatim>\<open>sub\<close> occurs in \<^verbatim>\<open>s\<close> as a contiguous substring.\<close>

fun js_includes :: "string \<Rightarrow> string \<Rightarrow> bool" where
  "js_includes [] sub = (sub = [])"
| "js_includes (c # cs) sub = (prefix sub (c # cs) \<or> js_includes cs sub)"

text \<open>\<^verbatim>\<open>s.startsWith(p)\<close>.\<close>

definition startsWith :: "string \<Rightarrow> string \<Rightarrow> bool" where
  "startsWith s p = prefix p s"

text \<open>\<^verbatim>\<open>s.split(d)\<close> for a one-character separator: never the empty list.\<close>

fun js_split :: "char \<Rightarrow> string \<Rightarrow> string list" where
  "js_split d [] = [[]]"
| "js_split d (c # cs) =
     (if c = d then [] # js_split d cs
      else (case js_split d cs of [] \<Rightarrow> [[c]] | x # xs \<Rightarrow> (c # x) # xs))"

subsection \<open>Character classes\<close>

definition is_upper :: "char \<Rightarrow> bool" where
  "is_upper c = (CHR ''A'' \<le> c \<and> c \<le> CHR ''Z'')"

definition is_lower :: "char \<Rightarrow> bool" where
  "is_lower c = (CHR ''a'' \<le> c \<and> c \<le> CHR ''z'')"

definition is_digit :: "char \<Rightarrow> bool" where
  "is_digit c = (CHR ''0'' \<le> c \<and> c \<le> CHR ''9'')"

text \<open>The class \<^verbatim>\<open>\w\<close>.\<close>

definition is_word :: "char \<Rightarrow> bool" where
  "is_word c = (is_lower c \<or> is_upper c \<or> is_digit c \<or> c = CHR ''_'')"

text \<open>Line terminators (line feed, carriage return).\<close>

definition is_line_end :: "char \<Rightarrow> bool" where
  "is_line_end c = (c = CHR 0x0A \<or> c = CHR 0x0D)"

text \<open>
  The class \<^verbatim>\<open>\s\<close>, which is also what \<^verbatim>\<open>trim\<close> strips: space, tab, line feed,
  vertical tab, form feed, carriage return, no-break space.
\<close>

definition is_space :: "char \<Rightarrow> bool" where
  "is_space c = (c = CHR '' '' \<or> c = CHR 0x09 \<or> c = CHR 0x0A \<or> c = CHR 0x0B
                 \<or> c = CHR 0x0C \<or> c = CHR 0x0D \<or> c = CHR 0xA0)"

definition to_lower :: "char \<Rightarrow> char" where
  "to_lower c = (if is_upper c then char_of (of_char c + (32 :: nat)) else c)"

definition to_upper :: "char \<Rightarrow> char" where
  "to_upper c = (if is_lower c then char_of (of_char c - (32 :: nat)) else c)"

text \<open>\<^verbatim>\<open>s.toLowerCase()\<close> on the code units below 256.\<close>

definition js_toLowerCase :: "string \<Rightarrow> string" where
  "js_toLowerCase s =
     map (\<lambda>c. if is_upper c \<or> (CHR 0xC0 \<le> c \<and> c \<le> CHR 0xDE \<and> c \<noteq> CHR 0xD7)
              then char_of (of_char c + (32 :: nat)) else c) s"

definition js_trim :: "string \<Rightarrow> string" where
  "js_trim s = rev (dropWhile is_space (rev (dropWhile is_space s)))"

text \<open>The quotation marks, which cannot stand in a string literal here.\<close>

definition dquote :: char where "dquote = CHR 0x22"
definition squote :: char where "squote = CHR 0x27"
definition bquote :: char where "bquote = CHR 0x60"
definition newline :: char where "newline = CHR 0x0A"

text \<open>
  The iteration order of \<^verbatim>\<open>new Set(xs)\<close>: every element once, in the order of first
  occurrence.
\<close>

definition js_unique :: "'a list \<Rightarrow> 'a list" where
  "js_unique xs = rev (remdups (rev xs))"

text \<open>A value is truthy when it is present and not the empty string.\<close>

definition truthy :: "string option \<Rightarrow> bool" where
  "truthy v = (case v of None \<Rightarrow> False | Some s \<Rightarrow> s \<noteq> [])"

subsection \<open>Failures\<close>

text \<open>
  A call either returns a value or fails: with a \<^verbatim>\<open>TypeError\<close>, with the error that
  \<^verbatim>\<open>SecurityManager.validateGitCommand\<close> throws, with a rejected git command, or by
  never returning.
\<close>

datatype failure = TypeError | CommandBlocked | GitError | LoopsForever

definition and_then :: "failure + 'a \<Rightarrow> ('a \<Rightarrow> failure + 'b) \<Rightarrow> failure + 'b" where
  "and_then r f = (case r of Inl e \<Rightarrow> Inl e | Inr v \<Rightarrow> f v)"

definition terminates :: "'a option \<Rightarrow> failure + 'a" where
  "terminates r = (case r of None \<Rightarrow> Inl LoopsForever | Some v \<Rightarrow> Inr v)"

subsection \<open>\<^verbatim>\<open>path.basename\<close> and \<^verbatim>\<open>path.extname\<close> (POSIX)\<close>

definition basename :: "string \<Rightarrow> string" where
  "basename p =
     (let q = dropWhile (\<lambda>c. c = CHR ''/'') (rev p)
      in rev (takeWhile (\<lambda>c. c \<noteq> CHR ''/'') q))"

text \<open>
  The extension runs from the last dot of the base name; it is empty when there is no
  dot, when the last dot is the first character, and for the base name \<^verbatim>\<open>..\<close>.
\<close>

definition extname :: "string \<Rightarrow> string" where
  "extname p =
     (let b = basename p;
          after = rev (takeWhile (\<lambda>c. c \<noteq> CHR ''.'') (rev b))
      in if CHR ''.'' \<notin> set b then []
         else if length after + 1 = length b then []
         else if b = ''..'' then []
         else CHR ''.'' # after)"

section \<open>Regular expressions\<close>

text \<open>
  The analyzers are built from regular-expression literals. They are transcribed into the
  datatype \<open>rx\<close> and run by a backtracking matcher with the priorities of the
  language: the left alternative first, a greedy star the longer match first, a lazy star
  the shorter one first. The source uses no back-reference and no look-around.
\<close>

datatype citem = Ch char | Rng char char | WordCh | SpaceCh | DigitCh

fun citem_ok :: "citem \<Rightarrow> char \<Rightarrow> bool" where
  "citem_ok (Ch d) c = (c = d)"
| "citem_ok (Rng a b) c = (a \<le> c \<and> c \<le> b)"
| "citem_ok WordCh c = is_word c"
| "citem_ok SpaceCh c = is_space c"
| "citem_ok DigitCh c = is_digit c"

datatype rx =
    Eps
  | Lit string
  | OneOf "citem list"
  | NoneOf "citem list"
  | Dot
  | Seq rx rx
  | Alt rx rx
  | Star rx
  | LazyStar rx
  | Grp nat rx
  | Bol
  | BolM
  | Eol
  | WordB

text \<open>
  A matcher state: the code unit before the current position (none at the start of the
  input), the rest of the input, and the groups captured so far, the latest first.
\<close>

type_synonym captures = "(nat \<times> string) list"
type_synonym mstate = "char option \<times> string \<times> captures"

text \<open>A literal, compared without case when the \<^verbatim>\<open>i\<close> flag is set.\<close>

fun lit_match :: "bool \<Rightarrow> string \<Rightarrow> char option \<Rightarrow> string \<Rightarrow> (char option \<times> string) option" where
  "lit_match ci [] p s = Some (p, s)"
| "lit_match ci (l # ls) p [] = None"
| "lit_match ci (l # ls) p (c # cs) =
     (if c = l \<or> (ci \<and> to_lower c = to_lower l) then lit_match ci ls (Some c) cs
      else None)"

definition word_before :: "char option \<Rightarrow> bool" where
  "word_before p = (case p of None \<Rightarrow> False | Some c \<Rightarrow> is_word c)"

definition word_after :: "string \<Rightarrow> bool" where
  "word_after s = (case s of [] \<Rightarrow> False | c # _ \<Rightarrow> is_word c)"

definition set_cap :: "nat \<Rightarrow> string \<Rightarrow> mstate \<Rightarrow> mstate" where
  "set_cap n s0 st =
     (case st of (p, s, caps) \<Rightarrow> (p, s, (n, take (length s0 - length s) s0) # caps))"

definition one_char :: "(char \<Rightarrow> bool) \<Rightarrow> mstate \<Rightarrow> mstate list" where
  "one_char ok st =
     (case st of (p, s, caps) \<Rightarrow>
        (case s of [] \<Rightarrow> [] | c # cs \<Rightarrow> if ok c then [(Some c, cs, caps)] else []))"

text \<open>A character class; with the \<^verbatim>\<open>i\<close> flag a letter also counts in its other case.\<close>

definition class_ok :: "bool \<Rightarrow> citem list \<Rightarrow> char \<Rightarrow> bool" where
  "class_ok ci items c =
     list_ex (\<lambda>i. citem_ok i c
                 \<or> (ci \<and> (citem_ok i (to_lower c) \<or> citem_ok i (to_upper c)))) items"

text \<open>
  \<open>rx_run ci r st\<close> lists the states in which a match of \<open>r\<close> from \<open>st\<close> can end, in
  the order in which backtracking tries them. An iteration of a star that consumes
  nothing is not continued, as in the language.
\<close>

function rx_run :: "bool \<Rightarrow> rx \<Rightarrow> mstate \<Rightarrow> mstate list" where
  "rx_run ci Eps st = [st]"
| "rx_run ci (Lit l) st =
     (case st of (p, s, caps) \<Rightarrow>
        (case lit_match ci l p s of None \<Rightarrow> [] | Some (p', s') \<Rightarrow> [(p', s', caps)]))"
| "rx_run ci (OneOf items) st = one_char (class_ok ci items) st"
| "rx_run ci (NoneOf items) st = one_char (\<lambda>c. \<not> class_ok ci items c) st"
| "rx_run ci Dot st = one_char (\<lambda>c. \<not> is_line_end c) st"
| "rx_run ci (Seq a b) st = concat (map (rx_run ci b) (rx_run ci a st))"
| "rx_run ci (Alt a b) st = rx_run ci a st @ rx_run ci b st"
| "rx_run ci (Star r) st =
     concat (map (\<lambda>st'. if length (fst (snd st')) < length (fst (snd st))
                          then rx_run ci (Star r) st' else [])
                 (rx_run ci r st)) @ [st]"
| "rx_run ci (LazyStar r) st =
     st # concat (map (\<lambda>st'. if length (fst (snd st')) < length (fst (snd st))
                               then rx_run ci (LazyStar r) st' else [])
                      (rx_run ci r st))"
| "rx_run ci (Grp n r) st = map (set_cap n (fst (snd st))) (rx_run ci r st)"
| "rx_run ci Bol st = (if fst st = None then [st] else [])"
| "rx_run ci BolM st =
     (case fst st of None \<Rightarrow> [st] | Some c \<Rightarrow> if is_line_end c then [st] else [])"
| "rx_run ci Eol st = (if fst (snd st) = [] then [st] else [])"
| "rx_run ci WordB st =
     (if word_before (fst st) \<noteq> word_after (fst (snd st)) then [st] else [])"
  by pat_completeness auto
termination
  by (relation "measures [\<lambda>(ci, r, st). size r, \<lambda>(ci, r, st). length (fst (snd st))]")
     auto

text \<open>The derived forms \<^verbatim>\<open>r+\<close>, \<^verbatim>\<open>r?\<close>, and sequences and alternatives of several parts.\<close>

definition rx_plus :: "rx \<Rightarrow> rx" where
  "rx_plus r = Seq r (Star r)"

definition rx_lazy_plus :: "rx \<Rightarrow> rx" where
  "rx_lazy_plus r = Seq r (LazyStar r)"

definition rx_opt :: "rx \<Rightarrow> rx" where
  "rx_opt r = Alt r Eps"

fun rx_seq :: "rx list \<Rightarrow> rx" where
  "rx_seq [] = Eps"
| "rx_seq [r] = r"
| "rx_seq (r # rs) = Seq r (rx_seq rs)"

fun rx_alt :: "rx list \<Rightarrow> rx" where
  "rx_alt [] = Eps"
| "rx_alt [r] = r"
| "rx_alt (r # rs) = Alt r (rx_alt rs)"

text \<open>The classes \<^verbatim>\<open>\s\<close>, \<^verbatim>\<open>\w\<close>, \<^verbatim>\<open>\d\<close> and their common repetitions.\<close>

definition sp :: rx where "sp = OneOf [SpaceCh]"
definition sp0 :: rx where "sp0 = Star (OneOf [SpaceCh])"
definition sp1 :: rx where "sp1 = rx_plus (OneOf [SpaceCh])"
definition word1 :: rx where "word1 = rx_plus (OneOf [WordCh])"
definition digit1 :: rx where "digit1 = rx_plus (OneOf [DigitCh])"

text \<open>The class \<^verbatim>\<open>[\s\S]\<close>: every code unit.\<close>

definition any_char :: rx where "any_char = NoneOf []"

text \<open>A keyword between two word boundaries, \<^verbatim>\<open>\bkw\b\<close>.\<close>

definition keyword :: "string \<Rightarrow> rx" where
  "keyword kw = rx_seq [WordB, Lit kw, WordB]"

definition quote_class :: rx where "quote_class = OneOf [Ch squote, Ch dquote]"

text \<open>A match: the matched text and the captured groups.\<close>

type_synonym rmatch = "string \<times> captures"

definition grp :: "nat \<Rightarrow> rmatch \<Rightarrow> string option" where
  "grp n m = map_of (snd m) n"

text \<open>The first match that starts at the current position.\<close>

definition rx_at :: "bool \<Rightarrow> rx \<Rightarrow> char option \<Rightarrow> string \<Rightarrow> (nat \<times> captures) option" where
  "rx_at ci r p s =
     (case rx_run ci r (p, s, []) of
        [] \<Rightarrow> None
      | st # _ \<Rightarrow> Some (length s - length (fst (snd st)), snd (snd st)))"

text \<open>The leftmost match: its offset from the current position, its length, its groups.\<close>

fun rx_search :: "bool \<Rightarrow> rx \<Rightarrow> char option \<Rightarrow> string \<Rightarrow> (nat \<times> nat \<times> captures) option" where
  "rx_search ci r p [] =
     (case rx_at ci r p [] of None \<Rightarrow> None | Some (n, caps) \<Rightarrow> Some (0, n, caps))"
| "rx_search ci r p (c # cs) =
     (case rx_at ci r p (c # cs) of
        Some (n, caps) \<Rightarrow> Some (0, n, caps)
      | None \<Rightarrow>
          (case rx_search ci r (Some c) cs of
             None \<Rightarrow> None
           | Some (i, n, caps) \<Rightarrow> Some (Suc i, n, caps)))"

text \<open>\<^verbatim>\<open>regex.test(s)\<close> and \<^verbatim>\<open>s.match(regex)\<close> for a regular expression without the \<^verbatim>\<open>g\<close> flag.\<close>

definition rx_test :: "bool \<Rightarrow> rx \<Rightarrow> string \<Rightarrow> bool" where
  "rx_test ci r s = (rx_search ci r None s \<noteq> None)"

definition rx_first :: "bool \<Rightarrow> rx \<Rightarrow> string \<Rightarrow> rmatch option" where
  "rx_first ci r s =
     (case rx_search ci r None s of
        None \<Rightarrow> None
      | Some (i, n, caps) \<Rightarrow> Some (take n (drop i s), caps))"

text \<open>
  All matches from left to right, as \<^verbatim>\<open>s.match(regex)\<close> and \<^verbatim>\<open>s.matchAll(regex)\<close>
  give them for a regular expression with the \<^verbatim>\<open>g\<close> flag: the search resumes where the
  last match ended, one code unit further after an empty match.
\<close>

function rx_all :: "bool \<Rightarrow> rx \<Rightarrow> char option \<Rightarrow> string \<Rightarrow> rmatch list" where
  "rx_all ci r p s =
     (case rx_search ci r p s of
        None \<Rightarrow> []
      | Some (i, n, caps) \<Rightarrow>
          (take n (drop i s), caps) #
          (let k = i + max n 1 in
           if 0 < k \<and> k \<le> length s
           then rx_all ci r (Some (s ! (k - 1))) (drop k s)
           else []))"
  by pat_completeness auto
termination
  by (relation "measure (\<lambda>(ci, r, p, s). length s)") auto

declare rx_all.simps [simp del]

definition match_all :: "bool \<Rightarrow> rx \<Rightarrow> string \<Rightarrow> rmatch list" where
  "match_all ci r s = rx_all ci r None s"

definition match_count :: "bool \<Rightarrow> rx \<Rightarrow> string \<Rightarrow> nat" where
  "match_count ci r s = length (match_all ci r s)"

text \<open>
  The loop \<^verbatim>\<open>while ((match = regex.exec(content)) !== null)\<close>: \<^verbatim>\<open>exec\<close> resumes at the
  end of the last match, so after an empty match it would find the same match again and
  the loop would never end. The result is then \<open>None\<close>.
\<close>

definition exec_loop :: "bool \<Rightarrow> rx \<Rightarrow> string \<Rightarrow> rmatch list option" where
  "exec_loop ci r s =
     (let ms = match_all ci r s
      in if list_ex (\<lambda>m. fst m = []) ms then None else Some ms)"

text \<open>A lower bound for the length of a match, read off the expression.\<close>

fun min_len :: "rx \<Rightarrow> nat" where
  "min_len Eps = 0"
| "min_len (Lit l) = length l"
| "min_len (OneOf items) = 1"
| "min_len (NoneOf items) = 1"
| "min_len Dot = 1"
| "min_len (Seq a b) = min_len a + min_len b"
| "min_len (Alt a b) = min (min_len a) (min_len b)"
| "min_len (Star r) = 0"
| "min_len (LazyStar r) = 0"
| "min_len (Grp n r) = min_len r"
| "min_len Bol = 0"
| "min_len BolM = 0"
| "min_len Eol = 0"
| "min_len WordB = 0"

section \<open>Data model\<close>

subsection \<open>Result of \<^verbatim>\<open>CodeAnalyzer.analyzeCode\<close>\<close>

record metrics =
  totalLines :: nat
  codeLines :: nat
  emptyLines :: nat
  commentLines :: nat
  averageLineLength :: int
  longestLine :: nat

text \<open>
  Of the Halstead record only the two integer fields are modelled; volume, difficulty and
  effort go through \<^verbatim>\<open>Math.log2\<close> and floating-point division and are read by no
  other function.
\<close>

record halstead_metrics =
  vocabulary :: nat
  hlength :: nat

record complexity_rec =
  cyclomatic :: nat
  cognitive :: nat
  nesting :: nat
  halstead :: halstead_metrics

record code_structure =
  st_functions :: "string list"
  st_classes :: "string list"
  st_imports :: "string list"
  st_exports :: "string list"
  st_interfaces :: "string list"
  st_types :: "string list"

text \<open>
  An issue record keeps the \<^verbatim>\<open>type\<close> and \<^verbatim>\<open>severity\<close> strings and, where the source
  stores one, the number (\<^verbatim>\<open>count\<close> or \<^verbatim>\<open>value\<close>); the message and pattern texts are
  constants of the type and are left out.
\<close>

record issue =
  issue_type :: string
  severity :: string
  detail :: "nat option"

record issues_rec =
  bugs :: "issue list"
  security :: "issue list"
  performance :: "issue list"
  style :: "issue list"
  maintenance :: "issue list"

record quality_factors =
  f_complexity :: string
  f_size :: string
  f_documentation :: string

record quality_rec =
  q_score :: int
  grade :: string
  factors :: quality_factors

record code_analysis =
  ca_language :: string
  metrics :: metrics
  complexity :: complexity_rec
  ca_structure :: code_structure
  issues :: issues_rec
  quality :: quality_rec

text \<open>\<^verbatim>\<open>analyzeCode\<close> returns either the error marker or the full record.\<close>

datatype code_result = ErrorMarker string | Full code_analysis

subsection \<open>Result of \<^verbatim>\<open>FileContentAnalyzer.analyzeFileContent\<close>\<close>

text \<open>
  The purpose and characteristic tags are Japanese string literals in the source; they are
  modelled as constructors, in the order in which the source tests for them. No tag holds
  a comma, so two tag lists are equal exactly when their \<^verbatim>\<open>join(',')\<close> texts are.
\<close>

datatype purpose_tag =
  ApiEndpoint | UiComponent | DataModel | BusinessLogic | Utility | Middleware
  | ReactComponent | RestfulApi | ApiCommunication | DatabaseModel | GenericModule

datatype characteristic =
  AsyncOps | ErrorHandling | StateManagement | ApiCalls | EventHandling
  | DatabaseOps | Authentication | Validation | Caching | Logging

datatype func_kind = Declared | Arrow | Method

record func_info =
  fname :: string
  params :: "string list"
  is_async :: bool
  fkind :: func_kind

record class_info =
  cname :: string
  extends :: "string option"

record export_info =
  export_kind :: string
  export_name :: string

record structure_counts =
  lines_count :: nat
  imports_count :: nat
  exports_count :: nat
  functions_count :: nat
  classes_count :: nat
  interfaces_count :: nat
  comments_count :: nat
  emptyLines_count :: nat

text \<open>The generated description (a Japanese template text) is not modelled.\<close>

record snapshot =
  fc_path :: string
  fc_language :: string
  fc_type :: string
  purpose :: "purpose_tag list"
  fc_structure :: structure_counts
  dependencies :: "string list"
  fc_exports :: "export_info list"
  fc_functions :: "func_info list"
  fc_classes :: "class_info list"
  fc_complexity :: nat
  characteristics :: "characteristic list"

subsection \<open>Records of \<^verbatim>\<open>DiffAnalyzer\<close>\<close>

text \<open>The status strings that \<^verbatim>\<open>Repository.mapFileStatus\<close> produces.\<close>

datatype file_status = Added | Modified | Deleted | Renamed | Copied | Updated | UnknownStatus

datatype impact_level = Low | Medium | High

record impact_rec =
  score :: int
  level :: impact_level

record version_comparison =
  linesAdded :: int
  linesRemoved :: int
  sizeChange :: int

record functional_changes =
  addedFunctions :: "string list"
  removedFunctions :: "string list"
  modifiedFunctions :: "string list"
  addedClasses :: "string list"
  removedClasses :: "string list"
  addedDependencies :: "string list"
  removedDependencies :: "string list"
  purposeChange :: "(purpose_tag list \<times> purpose_tag list) option"
  complexityChange :: int

text \<open>
  \<^verbatim>\<open>fileAnalysis.changes\<close> starts as the empty object and is replaced by the result of
  \<^verbatim>\<open>analyzeCode\<close>; \<^verbatim>\<open>comparison\<close> is a field added to that object afterwards.
\<close>

record changes_rec =
  analysis :: "code_result option"
  comparison :: "version_comparison option"

record file_analysis =
  path :: string
  status :: file_status
  extension :: string
  language :: string
  changes :: changes_rec
  additions :: nat
  deletions :: nat
  diff :: string
  contentAnalysis :: "snapshot option"
  functionalChanges :: "functional_changes option"

section \<open>\<^verbatim>\<open>CodeAnalyzer\<close> (\<^verbatim>\<open>src/analysis/code_analyzer.js\<close>)\<close>

subsection \<open>\<^verbatim>\<open>initializeLanguagePatterns\<close>\<close>

record lang_patterns =
  p_functions :: "rx option"
  p_classes :: "rx option"
  p_imports :: "rx option"
  p_exports :: "rx option"
  p_interfaces :: "rx option"
  p_types :: "rx option"

definition class_pattern :: rx where
  "class_pattern = rx_seq [Lit ''class'', sp1, Grp 1 word1]"

definition arrow_tail :: rx where
  "arrow_tail = rx_seq [sp0, rx_opt (rx_seq [Lit ''async'', sp0]), Lit ''('', LazyStar Dot,
     Lit '')'', sp0, Lit ''=>'']"

definition js_function_pattern :: rx where
  "js_function_pattern = rx_alt
     [rx_seq [Lit ''function'', sp1, Grp 1 word1],
      rx_seq [Lit ''const'', sp1, Grp 2 word1, sp0, Lit ''='', arrow_tail],
      rx_seq [Grp 3 word1, sp0, Lit '':'', arrow_tail]]"

definition js_import_pattern :: rx where
  "js_import_pattern = rx_seq [Lit ''import'', sp1, LazyStar Dot, Lit ''from'', sp1,
     quote_class, Grp 1 (rx_lazy_plus Dot), quote_class]"

definition javascript_patterns :: lang_patterns where
  "javascript_patterns =
     \<lparr> p_functions = Some js_function_pattern,
       p_classes = Some class_pattern,
       p_imports = Some js_import_pattern,
       p_exports = Some (rx_seq [Lit ''export'', sp1, rx_opt (rx_seq [Lit ''default'', sp1]),
          rx_alt [Lit ''class'', Lit ''function'', Lit ''const'', Lit ''let'', Lit ''var''],
          sp1, Grp 1 word1]),
       p_interfaces = None,
       p_types = None \<rparr>"

definition typescript_patterns :: lang_patterns where
  "typescript_patterns =
     \<lparr> p_functions = Some js_function_pattern,
       p_classes = Some class_pattern,
       p_imports = Some js_import_pattern,
       p_exports = Some (rx_seq [Lit ''export'', sp1, rx_opt (rx_seq [Lit ''default'', sp1]),
          rx_alt [Lit ''class'', Lit ''function'', Lit ''const'', Lit ''let'', Lit ''var'',
                  Lit ''interface'', Lit ''type''],
          sp1, Grp 1 word1]),
       p_interfaces = Some (rx_seq [Lit ''interface'', sp1, Grp 1 word1]),
       p_types = Some (rx_seq [Lit ''type'', sp1, Grp 1 word1]) \<rparr>"

definition python_patterns :: lang_patterns where
  "python_patterns =
     \<lparr> p_functions = Some (rx_seq [Lit ''def'', sp1, Grp 1 word1, sp0, Lit ''(''] ),
       p_classes = Some class_pattern,
       p_imports = Some (rx_alt
          [rx_seq [Lit ''import'', sp1, Grp 1 word1],
           rx_seq [Lit ''from'', sp1, Grp 2 word1, sp1, Lit ''import'']]),
       p_exports = None,
       p_interfaces = None,
       p_types = None \<rparr>"

definition java_function_pattern :: rx where
  "java_function_pattern = rx_seq
     [rx_plus (rx_alt [Lit ''public'', Lit ''private'', Lit ''protected'', Lit ''static'', sp]),
      rx_plus (OneOf [WordCh, Ch CHR ''<'', Ch CHR ''>'', Ch CHR ''['', Ch CHR '']'']),
      sp1, Grp 1 word1, sp0, Lit ''('', Star (NoneOf [Ch CHR '')'']), Lit '')'', sp0,
      rx_opt (rx_seq [Lit ''throws'', sp1, word1,
                      Star (rx_seq [sp0, Lit '','', sp0, word1])]),
      sp0, Lit ''{'']"

definition java_patterns :: lang_patterns where
  "java_patterns =
     \<lparr> p_functions = Some java_function_pattern,
       p_classes = Some class_pattern,
       p_imports = Some (rx_seq [Lit ''import'', sp1,
          Grp 1 (rx_plus (OneOf [WordCh, Ch CHR ''.''])), Lit '';'']),
       p_exports = None,
       p_interfaces = Some (rx_seq [Lit ''interface'', sp1, Grp 1 word1]),
       p_types = None \<rparr>"

text \<open>
  \<^verbatim>\<open>this.languagePatterns[language] || this.languagePatterns.javascript\<close>. The table is
  an object literal, so a language named like a property of \<^verbatim>\<open>Object.prototype\<close> finds
  that property: an object with none of the six pattern fields.
\<close>

definition object_prototype_keys :: "string list" where
  "object_prototype_keys =
     [''constructor'', ''__defineGetter__'', ''__defineSetter__'', ''hasOwnProperty'',
      ''__lookupGetter__'', ''__lookupSetter__'', ''isPrototypeOf'',
      ''propertyIsEnumerable'', ''toString'', ''valueOf'', ''__proto__'',
      ''toLocaleString'']"

definition no_patterns :: lang_patterns where
  "no_patterns = \<lparr> p_functions = None, p_classes = None, p_imports = None,
     p_exports = None, p_interfaces = None, p_types = None \<rparr>"

definition languagePatterns :: "string \<Rightarrow> lang_patterns" where
  "languagePatterns lang =
     (if lang = ''javascript'' then javascript_patterns
      else if lang = ''typescript'' then typescript_patterns
      else if lang = ''python'' then python_patterns
      else if lang = ''java'' then java_patterns
      else if lang \<in> set object_prototype_keys then no_patterns
      else javascript_patterns)"

subsection \<open>\<^verbatim>\<open>calculateMetrics\<close>\<close>

definition nonEmptyLines :: "string list \<Rightarrow> string list" where
  "nonEmptyLines ls = filter (\<lambda>l. 0 < length (js_trim l)) ls"

text \<open>
  \<^verbatim>\<open>Math.round(totalLength / nonEmptyLines.length)\<close>. The quotient of two lengths is
  rounded as a rational: for a double to round a quotient differently, the text would
  have to be longer than any string can be.
\<close>

definition calculateAverageLineLength :: "string list \<Rightarrow> int" where
  "calculateAverageLineLength ls =
     (let ne = nonEmptyLines ls
      in if length ne = 0 then 0
         else js_round (of_nat (sum_list (map length ne)) / of_nat (length ne)))"

definition calculateMetrics :: "string \<Rightarrow> metrics" where
  "calculateMetrics content =
     (let ls = js_split newline content;
          ne = nonEmptyLines ls;
          code = filter (\<lambda>l. \<not> startsWith (js_trim l) ''//''
                            \<and> \<not> startsWith (js_trim l) ''#''
                            \<and> \<not> startsWith (js_trim l) ''*'') ne
      in \<lparr> totalLines = length ls,
           codeLines = length code,
           emptyLines = length ls - length ne,
           commentLines = length ne - length code,
           averageLineLength = calculateAverageLineLength ls,
           longestLine = foldr max (map length ls) 0 \<rparr>)"

subsection \<open>\<^verbatim>\<open>calculateComplexity\<close>\<close>

fun max_nesting :: "string \<Rightarrow> nat \<Rightarrow> nat \<Rightarrow> nat" where
  "max_nesting [] cur mx = mx"
| "max_nesting (c # cs) cur mx =
     (if c = CHR ''{'' \<or> c = CHR ''('' \<or> c = CHR ''[''
      then max_nesting cs (cur + 1) (max mx (cur + 1))
      else if c = CHR ''}'' \<or> c = CHR '')'' \<or> c = CHR '']''
      then max_nesting cs (cur - 1) mx
      else max_nesting cs cur mx)"

definition calculateMaxNesting :: "string \<Rightarrow> nat" where
  "calculateMaxNesting content = max_nesting content 0 0"

definition operatorPattern :: rx where
  "operatorPattern = rx_alt
     [Lit ''++'', Lit ''--'', Lit ''=='', Lit ''!='', Lit ''<='', Lit ''>='', Lit ''&&'',
      Lit ''||'', Lit ''<<'', Lit ''>>'', OneOf (map Ch ''+-*/%=<>!&|^~'')]"

definition extractOperators :: "string \<Rightarrow> string list" where
  "extractOperators content = map fst (match_all False operatorPattern content)"

definition identifierPattern :: rx where
  "identifierPattern = rx_seq
     [WordB, OneOf [Rng CHR ''a'' CHR ''z'', Rng CHR ''A'' CHR ''Z'', Ch CHR ''_''],
      Star (OneOf [WordCh]), WordB]"

definition numberPattern :: rx where
  "numberPattern = rx_seq [WordB, digit1, rx_opt (Grp 1 (rx_seq [Lit ''.'', digit1])), WordB]"

definition stringPattern :: rx where
  "stringPattern = rx_seq [OneOf [Ch dquote, Ch squote, Ch bquote], LazyStar Dot,
     OneOf [Ch dquote, Ch squote, Ch bquote]]"

definition extractOperands :: "string \<Rightarrow> string list" where
  "extractOperands content =
       map fst (match_all False identifierPattern content)
     @ map fst (match_all False numberPattern content)
     @ map fst (match_all False stringPattern content)"

definition calculateHalsteadMetrics :: "string \<Rightarrow> halstead_metrics" where
  "calculateHalsteadMetrics content =
     (let operators = extractOperators content;
          operands = extractOperands content;
          n1 = length (remdups operators);
          n2 = length (remdups operands);
          N1 = length operators;
          N2 = length operands
      in \<lparr> vocabulary = n1 + n2, hlength = N1 + N2 \<rparr>)"

definition logicalOperators :: rx where
  "logicalOperators = Alt (Lit ''&&'') (Lit ''||'')"

fun cognitive_lines :: "string list \<Rightarrow> nat \<Rightarrow> nat \<Rightarrow> nat" where
  "cognitive_lines [] nestingLevel cx = cx"
| "cognitive_lines (line # rest) nestingLevel cx =
     (let trimmed = js_trim line;
          n1 = (if js_includes trimmed ''{'' then nestingLevel + 1 else nestingLevel);
          c1 = (if rx_test False (rx_seq [WordB, Grp 1 (rx_alt [Lit ''if'', Lit ''else if'',
                    Lit ''for'', Lit ''while'', Lit ''do'', Lit ''switch'']), WordB]) trimmed
                then cx + (1 + n1) else cx);
          c2 = (if rx_test False (keyword ''catch'') trimmed then c1 + 1 else c1);
          c3 = (if rx_test False (Alt (keyword ''break'') (keyword ''continue'')) trimmed
                then c2 + 1 else c2);
          c4 = c3 + match_count False logicalOperators trimmed;
          n2 = (if js_includes trimmed ''}'' then n1 - 1 else n1)
      in cognitive_lines rest n2 c4)"

definition calculateCognitiveComplexity :: "string \<Rightarrow> nat" where
  "calculateCognitiveComplexity content = cognitive_lines (js_split newline content) 0 0"

definition controlFlowPatterns :: "rx list" where
  "controlFlowPatterns =
     [keyword ''if'',
      rx_seq [WordB, Lit ''else'', sp1, Lit ''if'', WordB],
      keyword ''for'',
      keyword ''while'',
      keyword ''do'',
      keyword ''switch'',
      keyword ''case'',
      keyword ''catch'',
      rx_seq [Lit ''?'', sp0, Star Dot, sp0, Lit '':'']]"

definition calculateComplexity :: "string \<Rightarrow> string \<Rightarrow> complexity_rec" where
  "calculateComplexity content lang =
     \<lparr> cyclomatic = 1 + sum_list (map (\<lambda>pat. match_count False pat content) controlFlowPatterns)
                      + match_count False logicalOperators content,
       cognitive = calculateCognitiveComplexity content,
       nesting = calculateMaxNesting content,
       halstead = calculateHalsteadMetrics content \<rparr>"

subsection \<open>\<^verbatim>\<open>analyzeStructure\<close>\<close>

text \<open>\<^verbatim>\<open>match[1] || match[2] || match[3]\<close> followed by \<^verbatim>\<open>filter(Boolean)\<close>.\<close>

fun first_truthy :: "string option list \<Rightarrow> string option" where
  "first_truthy [] = None"
| "first_truthy (None # gs) = first_truthy gs"
| "first_truthy (Some g # gs) = (if g = [] then first_truthy gs else Some g)"

definition captured_names :: "rx option \<Rightarrow> nat list \<Rightarrow> string \<Rightarrow> string list" where
  "captured_names pat groups content =
     (case pat of
        None \<Rightarrow> []
      | Some r \<Rightarrow> List.map_filter (\<lambda>m. first_truthy (map (\<lambda>g. grp g m) groups))
                    (match_all False r content))"

definition analyzeStructure :: "string \<Rightarrow> string \<Rightarrow> code_structure" where
  "analyzeStructure content lang =
     (let patterns = languagePatterns lang
      in \<lparr> st_functions = captured_names (p_functions patterns) [1, 2, 3] content,
           st_classes = captured_names (p_classes patterns) [1] content,
           st_imports = captured_names (p_imports patterns) [1, 2] content,
           st_exports = captured_names (p_exports patterns) [1] content,
           st_interfaces = captured_names (p_interfaces patterns) [1] content,
           st_types = captured_names (p_types patterns) [1] content \<rparr>)"

subsection \<open>\<^verbatim>\<open>detectIssues\<close>\<close>

definition mk_issue :: "string \<Rightarrow> string \<Rightarrow> nat option \<Rightarrow> issue" where
  "mk_issue t sev d = \<lparr> issue_type = t, severity = sev, detail = d \<rparr>"

definition detectPotentialBugs :: "string \<Rightarrow> string \<Rightarrow> issue list" where
  "detectPotentialBugs content lang =
       (if rx_test False (Alt (rx_seq [Lit ''=='', sp0, Lit ''null''])
                              (rx_seq [Lit ''!='', sp0, Lit ''null''])) content
           \<and> lang = ''javascript''
        then [mk_issue ''null-comparison'' ''low'' None] else [])
     @ (if rx_test False (rx_seq [Lit ''console.'',
              Grp 1 (rx_alt [Lit ''log'', Lit ''error'', Lit ''warn'', Lit ''info''])]) content
        then [mk_issue ''console-statement'' ''low'' None] else [])
     @ (if rx_test False (rx_alt [Lit ''TODO'', Lit ''FIXME'', Lit ''XXX'', Lit ''HACK'']) content
        then [mk_issue ''todo-comment'' ''info'' None] else [])"

definition secret_word :: rx where
  "secret_word = rx_alt [Lit ''password'', Lit ''secret'',
     rx_seq [Lit ''api'', rx_opt (OneOf [Ch CHR ''_'', Ch CHR ''-'']), Lit ''key'']]"

definition detectSecurityIssues :: "string \<Rightarrow> issue list" where
  "detectSecurityIssues content =
       (if rx_test False (rx_seq [Lit ''eval'', sp0, Lit ''(''] ) content
        then [mk_issue ''eval-usage'' ''high'' None] else [])
     @ (if rx_test False (rx_seq [Lit ''innerHTML'', sp0, Lit ''=''] ) content
        then [mk_issue ''innerHTML'' ''medium'' None] else [])
     @ (if rx_test True secret_word content
           \<and> rx_test True (rx_seq [Grp 1 secret_word, sp0, Lit ''='', sp0, quote_class,
                  rx_plus (NoneOf [Ch dquote, Ch squote]), quote_class]) content
        then [mk_issue ''hardcoded-secret'' ''critical'' None] else [])"

definition detectPerformanceIssues :: "string \<Rightarrow> string \<Rightarrow> issue list" where
  "detectPerformanceIssues content lang =
     (if lang = ''javascript'' \<or> lang = ''typescript''
      then (if rx_test False (Lit ''.forEach('') content \<and> 1000 < length content
            then [mk_issue ''forEach-usage'' ''low'' None] else [])
         @ (if rx_test False (rx_seq [Lit ''for'', sp0, Lit ''('', Star (NoneOf [Ch CHR '')'']),
                  Lit '')'', sp0, Lit ''{'', Star (NoneOf [Ch CHR ''}'']), Lit ''for'', sp0,
                  Lit ''(''] ) content
            then [mk_issue ''nested-loops'' ''medium'' None] else [])
      else [])"

definition detectStyleIssues :: "string \<Rightarrow> string \<Rightarrow> issue list" where
  "detectStyleIssues content lang =
     (let longLines = filter (\<lambda>l. 120 < length l) (js_split newline content)
      in (if 0 < length longLines
          then [mk_issue ''long-lines'' ''info'' (Some (length longLines))] else [])
       @ (if (lang = ''javascript'' \<or> lang = ''typescript'')
             \<and> rx_test False (rx_seq [Lit ''var'', sp1, word1, sp0, Lit ''=''] ) content
          then [mk_issue ''var-usage'' ''low'' None] else []))"

definition detectMaintenanceIssues :: "string \<Rightarrow> string \<Rightarrow> issue list" where
  "detectMaintenanceIssues content lang =
     (let cx = calculateComplexity content lang;
          m = calculateMetrics content
      in (if 10 < cyclomatic cx
          then [mk_issue ''high-complexity'' ''medium'' (Some (cyclomatic cx))] else [])
       @ (if 5 < nesting cx
          then [mk_issue ''deep-nesting'' ''medium'' (Some (nesting cx))] else [])
       @ (if 500 < totalLines m
          then [mk_issue ''large-file'' ''low'' (Some (totalLines m))] else []))"

definition detectIssues :: "string \<Rightarrow> string \<Rightarrow> issues_rec" where
  "detectIssues content lang =
     \<lparr> bugs = detectPotentialBugs content lang,
       security = detectSecurityIssues content,
       performance = detectPerformanceIssues content lang,
       style = detectStyleIssues content lang,
       maintenance = detectMaintenanceIssues content lang \<rparr>"

subsection \<open>\<^verbatim>\<open>assessQuality\<close> and \<^verbatim>\<open>getGrade\<close>\<close>

definition getGrade :: "int \<Rightarrow> string" where
  "getGrade s =
     (if s \<ge> 90 then ''A''
      else if s \<ge> 80 then ''B''
      else if s \<ge> 70 then ''C''
      else if s \<ge> 60 then ''D''
      else ''F'')"

text \<open>
  \<^verbatim>\<open>metrics.commentLines / (metrics.codeLines || 1)\<close> is compared with 0.1. Both are
  doubles in the source; for line counts below \<open>10\<^sup>1\<^sup>6\<close> the comparison of the rounded
  quotient with the double nearest to 0.1 agrees with the comparison of the rationals.
\<close>

definition commentRatio :: "metrics \<Rightarrow> rat" where
  "commentRatio m =
     of_nat (commentLines m) / of_nat (if codeLines m = 0 then 1 else codeLines m)"

definition assessQuality :: "string \<Rightarrow> string \<Rightarrow> quality_rec" where
  "assessQuality content lang =
     (let m = calculateMetrics content;
          cx = calculateComplexity content lang;
          s0 = (100 :: int);
          s1 = (if 10 < cyclomatic cx then s0 - 10 else s0);
          s2 = (if 20 < cyclomatic cx then s1 - 10 else s1);
          s3 = (if 5 < nesting cx then s2 - 5 else s2);
          s4 = (if 500 < totalLines m then s3 - 5 else s3);
          s5 = (if 1000 < totalLines m then s4 - 10 else s4);
          ratio = commentRatio m;
          s6 = (if ratio < 1 / 10 then s5 - 5 else s5);
          s7 = max 0 (min 100 s6)
      in \<lparr> q_score = s7,
           grade = getGrade s7,
           factors =
             \<lparr> f_complexity = (if cyclomatic cx \<le> 10 then ''good'' else ''needs-improvement''),
               f_size = (if totalLines m \<le> 500 then ''good'' else ''large''),
               f_documentation = (if ratio \<ge> 1 / 10 then ''adequate'' else ''insufficient'') \<rparr> \<rparr>)"

subsection \<open>\<^verbatim>\<open>analyzeCode\<close>\<close>

text \<open>
  The content is a string, or absent (\<^verbatim>\<open>null\<close> or \<^verbatim>\<open>undefined\<close>: \<open>None\<close>).
  \<^verbatim>\<open>!content\<close> holds for an absent content and for the empty string.
\<close>

definition analyzeCode :: "string option \<Rightarrow> string \<Rightarrow> code_result" where
  "analyzeCode content lang =
     (case content of
        None \<Rightarrow> ErrorMarker ''No content to analyze''
      | Some c \<Rightarrow>
          if c = [] then ErrorMarker ''No content to analyze''
          else Full \<lparr> ca_language = lang,
                      metrics = calculateMetrics c,
                      complexity = calculateComplexity c lang,
                      ca_structure = analyzeStructure c lang,
                      issues = detectIssues c lang,
                      quality = assessQuality c lang \<rparr>)"

section \<open>\<^verbatim>\<open>FileContentAnalyzer\<close> (\<^verbatim>\<open>src/analysis/file_content_analyzer.js\<close>)\<close>

subsection \<open>\<^verbatim>\<open>initializePatterns\<close>\<close>

text \<open>
  The table of content patterns in the order of \<^verbatim>\<open>Object.entries\<close>: category, subtype
  and the patterns of the subtype, each with its \<^verbatim>\<open>i\<close> flag.
\<close>

definition http_verbs :: rx where
  "http_verbs = rx_alt [Lit ''get'', Lit ''post'', Lit ''put'', Lit ''delete'', Lit ''patch'']"

definition content_patterns :: "(string \<times> string \<times> (bool \<times> rx) list) list" where
  "content_patterns =
   [(''component'', ''react'',
      [(False, rx_seq [Lit ''import'', sp1, Lit ''React'']),
       (False, rx_seq [Lit ''extends'', sp1, rx_opt (Grp 1 (Lit ''React.'')), Lit ''Component'']),
       (False, rx_seq [Lit ''function'', sp1, word1, sp0, Lit ''('', Star (NoneOf [Ch CHR '')'']),
                       Lit '')'', sp0, Lit ''{'', Star any_char, Lit ''return'', sp0, Lit ''(''] ),
       (False, rx_seq [Lit ''const'', sp1, word1, sp0, Lit ''='', sp0, Lit ''('',
                       Star (NoneOf [Ch CHR '')'']), Lit '')'', sp0, Lit ''=>'', sp0,
                       Star any_char, Lit ''return'', sp0, Lit ''(''] ),
       (False, rx_seq [Lit ''export'', sp1, Lit ''default'', sp1, Lit ''function'', sp1, word1])]),
    (''component'', ''vue'',
      [(False, Lit ''<template>''),
       (False, Lit ''<script>''),
       (False, rx_seq [Lit ''export'', sp1, Lit ''default'', sp0, Lit ''{'', Star any_char,
                       Lit ''data'', sp0, Lit ''()'']),
       (False, Lit ''Vue.component'')]),
    (''component'', ''angular'',
      [(False, rx_seq [Lit ''@Component'', sp0, Lit ''(''] ),
       (False, rx_seq [Lit ''@Injectable'', sp0, Lit ''(''] ),
       (False, rx_seq [Lit ''@NgModule'', sp0, Lit ''(''] ),
       (False, rx_seq [Lit ''import'', sp0, Lit ''{'', sp0, Lit ''Component'', sp0, Lit ''}'',
                       sp0, Lit ''from'', sp0, quote_class, Lit ''@angular''])]),
    (''api'', ''rest'',
      [(False, rx_seq [Lit ''app.'', Grp 1 http_verbs, sp0, Lit ''(''] ),
       (False, rx_seq [Lit ''router.'', Grp 1 http_verbs, sp0, Lit ''(''] ),
       (False, Lit ''express()''),
       (False, rx_seq [Lit ''@'', Grp 1 (rx_alt [Lit ''Get'', Lit ''Post'', Lit ''Put'',
                       Lit ''Delete'', Lit ''Patch'']), Lit ''Mapping'']),
       (False, Lit ''@RestController'')]),
    (''api'', ''graphql'',
      [(False, rx_seq [Lit ''type'', sp1, Lit ''Query'', sp0, Lit ''{'']),
       (False, rx_seq [Lit ''type'', sp1, Lit ''Mutation'', sp0, Lit ''{'']),
       (False, Lit ''GraphQLSchema''),
       (False, Lit ''buildSchema(''),
       (False, Lit ''@Resolver'')]),
    (''database'', ''model'',
      [(False, Lit ''mongoose.Schema''),
       (False, Lit ''sequelize.define''),
       (False, rx_seq [Lit ''@Entity'', sp0, Lit ''(''] ),
       (False, rx_seq [Lit ''class'', sp1, word1, sp1, Lit ''extends'', sp1, Lit ''Model'']),
       (True, rx_seq [Lit ''CREATE'', sp1, Lit ''TABLE''])]),
    (''database'', ''migration'',
      [(False, rx_seq [Lit ''exports.up'', sp0, Lit ''='']),
       (False, rx_seq [Lit ''exports.down'', sp0, Lit ''='']),
       (False, rx_seq [Lit ''class'', sp1, word1, Lit ''Migration'']),
       (False, rx_seq [Lit ''def'', sp1, Lit ''up'', sp0, Lit ''(''] ),
       (False, rx_seq [Lit ''def'', sp1, Lit ''down'', sp0, Lit ''(''] )]),
    (''test'', ''unit'',
      [(False, rx_seq [Lit ''describe'', sp0, Lit ''(''] ),
       (False, rx_seq [Lit ''it'', sp0, Lit ''(''] ),
       (False, rx_seq [Lit ''test'', sp0, Lit ''(''] ),
       (False, rx_seq [Lit ''expect'', sp0, Lit ''(''] ),
       (False, Lit ''@Test''),
       (False, Lit ''assert'')]),
    (''test'', ''integration'',
      [(False, Lit ''supertest''),
       (False, Lit ''request(app)''),
       (False, Lit ''@SpringBootTest''),
       (False, Lit ''TestBed.configureTestingModule'')]),
    (''config'', ''build'',
      [(False, Lit ''webpack.config''),
       (False, Lit ''rollup.config''),
       (False, Lit ''vite.config''),
       (False, Lit ''tsconfig.json''),
       (False, Lit ''babel.config'')]),
    (''config'', ''environment'',
      [(False, Lit ''.env''),
       (False, rx_seq [Lit ''config.'', Grp 1 (rx_alt [Lit ''js'', Lit ''ts'', Lit ''json'']), Eol]),
       (False, rx_seq [Lit ''settings.'', Grp 1 (rx_alt [Lit ''py'', Lit ''js'', Lit ''ts'']), Eol])]),
    (''style'', ''css'',
      [(False, Seq (Lit ''.css'') Eol),
       (False, Seq (Lit ''.scss'') Eol),
       (False, Seq (Lit ''.sass'') Eol),
       (False, Seq (Lit ''.less'') Eol),
       (False, Lit ''styled-components''),
       (False, Lit ''@emotion'')]),
    (''documentation'', ''markdown'',
      [(False, Seq (Lit ''.md'') Eol),
       (False, Lit ''README''),
       (False, Lit ''CHANGELOG''),
       (False, Lit ''CONTRIBUTING'')]),
    (''documentation'', ''jsdoc'',
      [(False, rx_seq [Lit ''/**'', Star any_char, Lit ''@param'']),
       (False, rx_seq [Lit ''/**'', Star any_char, Lit ''@returns'']),
       (False, rx_seq [Lit ''/**'', Star any_char, Lit ''@description''])])]"

subsection \<open>\<^verbatim>\<open>detectFileType\<close>\<close>

text \<open>The first subtype of the table with a pattern that matches the content.\<close>

fun first_content_type :: "(string \<times> string \<times> (bool \<times> rx) list) list \<Rightarrow> string \<Rightarrow> string option" where
  "first_content_type [] content = None"
| "first_content_type ((category, subtype, pats) # rest) content =
     (if list_ex (\<lambda>(ci, r). rx_test ci r content) pats
      then Some (category @ ''-'' @ subtype)
      else first_content_type rest content)"

definition typeMap :: "string \<Rightarrow> string option" where
  "typeMap ext =
     map_of [(''.js'', ''javascript''), (''.jsx'', ''react-component''),
             (''.ts'', ''typescript''), (''.tsx'', ''react-component''),
             (''.vue'', ''vue-component''), (''.py'', ''python''), (''.java'', ''java''),
             (''.go'', ''go''), (''.rs'', ''rust''), (''.rb'', ''ruby''), (''.php'', ''php'')] ext"

definition detectFileType :: "string \<Rightarrow> string \<Rightarrow> string" where
  "detectFileType filePath content =
     (let fileName = basename filePath;
          ext = extname filePath
      in if rx_test False (rx_alt [Lit ''test.'', Lit ''spec.'', Lit ''.test.'', Lit ''.spec.''])
              fileName
         then ''test''
         else if rx_test False (rx_alt [Lit ''config'', Lit ''settings'', Lit ''setup'']) fileName
         then ''configuration''
         else if rx_test False (rx_seq [Lit ''index.'',
                 Grp 1 (rx_alt [Lit ''js'', Lit ''ts'', Lit ''jsx'', Lit ''tsx'']), Eol]) fileName
         then ''entry-point''
         else if rx_test False (rx_seq [Lit ''.'',
                 Grp 1 (rx_alt [Lit ''css'', Lit ''scss'', Lit ''sass'', Lit ''less'']), Eol]) fileName
         then ''stylesheet''
         else if rx_test False (rx_seq [Lit ''.'',
                 Grp 1 (rx_alt [Lit ''md'', Lit ''markdown'', Lit ''txt'', Lit ''rst'']), Eol]) fileName
         then ''documentation''
         else (case first_content_type content_patterns content of
                 Some t \<Rightarrow> t
               | None \<Rightarrow> (case typeMap ext of Some t \<Rightarrow> t | None \<Rightarrow> ''unknown'')))"

subsection \<open>\<^verbatim>\<open>detectFilePurpose\<close>\<close>

definition path_segment :: "string list \<Rightarrow> rx" where
  "path_segment names = rx_seq [Lit ''/'', Grp 1 (rx_alt (map Lit names)), Lit ''/'']"

definition detectFilePurpose :: "string \<Rightarrow> string \<Rightarrow> purpose_tag list" where
  "detectFilePurpose filePath content =
     (let purposes =
          (if rx_test False (path_segment [''api'', ''routes'', ''controllers'']) filePath
           then [ApiEndpoint] else [])
        @ (if rx_test False (path_segment [''components'', ''views'', ''pages'']) filePath
           then [UiComponent] else [])
        @ (if rx_test False (path_segment [''models'', ''entities'', ''schemas'']) filePath
           then [DataModel] else [])
        @ (if rx_test False (rx_seq [Lit ''/'', Grp 1 (rx_alt [Lit ''services'', Lit ''handlers'',
                  rx_seq [Lit ''use'', rx_opt (Lit ''-''), Lit ''cases'']]), Lit ''/'']) filePath
           then [BusinessLogic] else [])
        @ (if rx_test False (path_segment [''utils'', ''helpers'', ''lib'']) filePath
           then [Utility] else [])
        @ (if rx_test False (path_segment [''middleware'', ''interceptors'', ''filters'']) filePath
           then [Middleware] else [])
        @ (if rx_test False (rx_seq [Lit ''export'', sp1, Lit ''default'', sp1, Lit ''class'',
                  Star Dot, Lit ''extends'', Star Dot, Lit ''Component'']) content
           then [ReactComponent] else [])
        @ (if rx_test False (rx_seq [Lit ''app.'',
                  Grp 1 (rx_alt [Lit ''get'', Lit ''post'', Lit ''put'', Lit ''delete'']),
                  Lit ''(''] ) content
           then [RestfulApi] else [])
        @ (if rx_test False (rx_alt [rx_seq [Lit ''async'', sp1, Lit ''function'', Star Dot,
                  Lit ''fetch''], Lit ''axios'', Lit ''fetch(''] ) content
           then [ApiCommunication] else [])
        @ (if rx_test False (Alt (Lit ''mongoose.Schema'') (Lit ''sequelize.define'')) content
           then [DatabaseModel] else [])
      in if 0 < length purposes then purposes else [GenericModule])"

subsection \<open>\<^verbatim>\<open>analyzeStructure\<close>\<close>

definition count_lines :: "(string \<Rightarrow> bool) \<Rightarrow> string list \<Rightarrow> nat" where
  "count_lines P ls = length (filter P ls)"

definition analyzeStructureCounts :: "string \<Rightarrow> string \<Rightarrow> structure_counts" where
  "analyzeStructureCounts content lang =
     (let ls = map js_trim (js_split newline content)
      in \<lparr> lines_count = length (js_split newline content),
           imports_count = count_lines (\<lambda>t.
               rx_test False (rx_seq [Bol, Lit ''import'', sp]) t
             \<or> rx_test False (rx_seq [Bol, Lit ''const'', Star Dot, Lit ''require(''] ) t) ls,
           exports_count = count_lines (\<lambda>t. rx_test False (rx_seq [Bol, Lit ''export'', sp]) t) ls,
           functions_count = count_lines (\<lambda>t.
               rx_test False (rx_seq [Bol, rx_opt (Grp 1 (rx_seq [Lit ''async'', sp1])),
                                      Lit ''function'', sp]) t
             \<or> rx_test False (rx_seq [Bol, Lit ''const'', sp1, word1, sp0, Lit ''='', sp0,
                                      rx_opt (Grp 1 (rx_seq [Lit ''async'', sp0])), Lit ''(''] ) t) ls,
           classes_count = count_lines (\<lambda>t. rx_test False (rx_seq [Bol, Lit ''class'', sp]) t) ls,
           interfaces_count = count_lines (\<lambda>t.
               rx_test False (rx_seq [Bol, Lit ''interface'', sp]) t
             \<or> rx_test False (rx_seq [Bol, Lit ''type'', sp]) t) ls,
           comments_count = count_lines (\<lambda>t.
               startsWith t ''//'' \<or> startsWith t ''/*'' \<or> startsWith t ''*'') ls,
           emptyLines_count = count_lines (\<lambda>t. t = []) ls \<rparr>)"

subsection \<open>\<^verbatim>\<open>extractDependencies\<close>\<close>

definition importRegex :: rx where
  "importRegex = rx_seq [Lit ''import'', sp1,
     rx_opt (rx_seq [LazyStar any_char, Lit ''from'', sp1]),
     quote_class, Grp 1 (rx_plus (NoneOf [Ch squote, Ch dquote])), quote_class]"

definition requireRegex :: rx where
  "requireRegex = rx_seq [Lit ''require'', sp0, Lit ''('', quote_class,
     Grp 1 (rx_plus (NoneOf [Ch squote, Ch dquote])), quote_class, Lit '')'']"

definition pythonImportRegex :: rx where
  "pythonImportRegex = rx_seq [BolM,
     rx_opt (rx_seq [Lit ''from'', sp1, Grp 1 (rx_plus (NoneOf [SpaceCh])), sp1]),
     Lit ''import'', sp1]"

text \<open>The first group of every match, where it is set and passes the test.\<close>

definition group1_where :: "(string \<Rightarrow> bool) \<Rightarrow> rmatch list \<Rightarrow> string list" where
  "group1_where P ms =
     List.map_filter (\<lambda>m. case grp 1 m of None \<Rightarrow> None
                              | Some g \<Rightarrow> if P g then Some g else None) ms"

definition extractDependencies :: "string \<Rightarrow> string \<Rightarrow> string list option" where
  "extractDependencies content lang = do {
     imports \<leftarrow> exec_loop False importRegex content;
     requires \<leftarrow> exec_loop False requireRegex content;
     pythons \<leftarrow> (if lang = ''python'' then exec_loop False pythonImportRegex content
                 else Some []);
     Some (js_unique
       (group1_where (\<lambda>g. \<not> startsWith g ''.'') imports
        @ group1_where (\<lambda>g. \<not> startsWith g ''.'') requires
        @ group1_where (\<lambda>g. g \<noteq> []) pythons))
   }"

subsection \<open>\<^verbatim>\<open>extractExports\<close>\<close>

definition defaultExportRegex :: rx where
  "defaultExportRegex = rx_seq [Lit ''export'', sp1, Lit ''default'', sp1, Grp 1 word1]"

definition namedExportRegex :: rx where
  "namedExportRegex = rx_seq [Lit ''export'', sp1,
     rx_alt [Lit ''const'', Lit ''let'', Lit ''var'', Lit ''function'', Lit ''class''],
     sp1, Grp 1 word1]"

definition exportFromRegex :: rx where
  "exportFromRegex = rx_seq [Lit ''export'', sp0, Lit ''{'', sp0,
     Grp 1 (rx_plus (NoneOf [Ch CHR ''}''])), sp0, Lit ''}'', sp0, Lit ''from'']"

definition group_text :: "nat \<Rightarrow> rmatch \<Rightarrow> string" where
  "group_text n m = (case grp n m of None \<Rightarrow> [] | Some g \<Rightarrow> g)"

definition extractExports :: "string \<Rightarrow> string \<Rightarrow> export_info list option" where
  "extractExports content lang = do {
     named \<leftarrow> exec_loop False namedExportRegex content;
     reexports \<leftarrow> exec_loop False exportFromRegex content;
     Some ((case rx_first False defaultExportRegex content of
              None \<Rightarrow> []
            | Some m \<Rightarrow> [\<lparr> export_kind = ''default'', export_name = group_text 1 m \<rparr>])
           @ map (\<lambda>m. \<lparr> export_kind = ''named'', export_name = group_text 1 m \<rparr>) named
           @ concat (map (\<lambda>m. map (\<lambda>n. \<lparr> export_kind = ''reexport'', export_name = js_trim n \<rparr>)
                                   (js_split (CHR '','') (group_text 1 m))) reexports))
   }"

subsection \<open>\<^verbatim>\<open>extractFunctions\<close>\<close>

definition funcDeclRegex :: rx where
  "funcDeclRegex = rx_seq [rx_opt (rx_seq [Lit ''async'', sp1]), Lit ''function'', sp1,
     Grp 1 word1, sp0, Lit ''('', Grp 2 (Star (NoneOf [Ch CHR '')''])), Lit '')'']"

definition arrowFuncRegex :: rx where
  "arrowFuncRegex = rx_seq [rx_alt [Lit ''const'', Lit ''let'', Lit ''var''], sp1,
     Grp 1 word1, sp0, Lit ''='', sp0, rx_opt (rx_seq [Lit ''async'', sp0]), Lit ''('',
     Grp 2 (Star (NoneOf [Ch CHR '')''])), Lit '')'', sp0, Lit ''=>'']"

definition methodRegex :: rx where
  "methodRegex = rx_seq [rx_opt (rx_seq [Lit ''async'', sp1]), Grp 1 word1, sp0, Lit ''('',
     Grp 2 (Star (NoneOf [Ch CHR '')''])), Lit '')'', sp0, Lit ''{'']"

text \<open>\<^verbatim>\<open>match[2].split(',').map(p => p.trim()).filter(p => p)\<close>.\<close>

definition split_params :: "string \<Rightarrow> string list" where
  "split_params s = filter (\<lambda>p. p \<noteq> []) (map js_trim (js_split (CHR '','') s))"

definition func_of_match :: "func_kind \<Rightarrow> rmatch \<Rightarrow> func_info" where
  "func_of_match k m =
     \<lparr> fname = group_text 1 m,
       params = split_params (group_text 2 m),
       is_async = js_includes (fst m) ''async'',
       fkind = k \<rparr>"

definition method_excludes :: "string list" where
  "method_excludes = [''function'', ''if'', ''for'', ''while'', ''switch'', ''catch'']"

definition extractFunctions :: "string \<Rightarrow> string \<Rightarrow> func_info list option" where
  "extractFunctions content lang = do {
     decls \<leftarrow> exec_loop False funcDeclRegex content;
     arrows \<leftarrow> exec_loop False arrowFuncRegex content;
     methods \<leftarrow> exec_loop False methodRegex content;
     Some (map (func_of_match Declared) decls
           @ map (func_of_match Arrow) arrows
           @ map (func_of_match Method)
               (filter (\<lambda>m. group_text 1 m \<notin> set method_excludes) methods))
   }"

subsection \<open>\<^verbatim>\<open>extractClasses\<close>\<close>

definition classRegex :: rx where
  "classRegex = rx_seq [Lit ''class'', sp1, Grp 1 word1,
     rx_opt (rx_seq [sp1, Lit ''extends'', sp1, Grp 2 word1]), sp0, Lit ''{'']"

definition extractClasses :: "string \<Rightarrow> string \<Rightarrow> class_info list option" where
  "extractClasses content lang = do {
     ms \<leftarrow> exec_loop False classRegex content;
     Some (map (\<lambda>m. \<lparr> cname = group_text 1 m,
                       extends = (if truthy (grp 2 m) then grp 2 m else None) \<rparr>) ms)
   }"

subsection \<open>\<^verbatim>\<open>calculateComplexity\<close>\<close>

definition decisionPatterns :: "rx list" where
  "decisionPatterns =
     [rx_seq [Lit ''if'', sp0, Lit ''(''],
      rx_seq [Lit ''else'', sp1, Lit ''if'', sp0, Lit ''(''],
      rx_seq [Lit ''for'', sp0, Lit ''(''],
      rx_seq [Lit ''while'', sp0, Lit ''(''],
      rx_seq [Lit ''do'', sp0, Lit ''{''],
      rx_seq [Lit ''switch'', sp0, Lit ''(''],
      rx_seq [Lit ''case'', sp1],
      rx_seq [Lit ''catch'', sp0, Lit ''(''],
      rx_seq [Lit ''?'', sp0, rx_plus (NoneOf [Ch CHR '':'']), sp0, Lit '':''],
      Lit ''&&'',
      Lit ''||'']"

definition calculateComplexityFC :: "string \<Rightarrow> nat" where
  "calculateComplexityFC content =
     1 + sum_list (map (\<lambda>pat. match_count False pat content) decisionPatterns)"

subsection \<open>\<^verbatim>\<open>detectCharacteristics\<close>\<close>

definition detectCharacteristics :: "string \<Rightarrow> string \<Rightarrow> characteristic list" where
  "detectCharacteristics content lang =
       (if rx_test False (rx_alt [Lit ''async'', Lit ''await'', Lit ''Promise'', Lit ''then(''] )
             content then [AsyncOps] else [])
     @ (if rx_test False (rx_alt [rx_seq [Lit ''try'', sp0, Lit ''{''],
             rx_seq [Lit ''catch'', sp0, Lit ''(''], rx_seq [Lit ''throw'', sp1]])
             content then [ErrorHandling] else [])
     @ (if rx_test False (rx_alt [Lit ''useState'', Lit ''setState'', Lit ''redux'', Lit ''vuex'',
             Lit ''mobx'']) content then [StateManagement] else [])
     @ (if rx_test False (rx_alt [Lit ''fetch('', Lit ''axios'', Lit ''http.request'',
             Lit ''ajax'']) content then [ApiCalls] else [])
     @ (if rx_test False (rx_alt [Lit ''addEventListener'', Lit ''onClick'', Lit ''onChange'',
             Lit ''onSubmit'', Lit ''emit(''] ) content then [EventHandling] else [])
     @ (if rx_test False (rx_alt [Lit ''SELECT'', Lit ''INSERT'', Lit ''UPDATE'', Lit ''DELETE'',
             Lit ''find('', Lit ''save('', Lit ''create('', Lit ''update(''] )
             content then [DatabaseOps] else [])
     @ (if rx_test False (rx_alt [Lit ''auth'', Lit ''token'', Lit ''jwt'', Lit ''session'',
             Lit ''login'', Lit ''logout'', Lit ''password'']) content then [Authentication] else [])
     @ (if rx_test False (rx_alt [Lit ''validate'', Lit ''validator'', Lit ''schema.validate'',
             Lit ''yup'', Lit ''joi'']) content then [Validation] else [])
     @ (if rx_test False (rx_alt [Lit ''cache'', Lit ''redis'', Lit ''memcached'',
             Lit ''localStorage'', Lit ''sessionStorage'']) content then [Caching] else [])
     @ (if rx_test False (rx_alt [Lit ''console.log'', Lit ''logger'', Lit ''winston'',
             Lit ''morgan'', Lit ''debug'']) content then [Logging] else [])"

subsection \<open>\<^verbatim>\<open>analyzeFileContent\<close>\<close>

text \<open>
  The content argument: a text, or a value that is no string and has no \<^verbatim>\<open>split\<close>
  method (\<^verbatim>\<open>null\<close>, \<^verbatim>\<open>undefined\<close>, a number, a byte buffer). The regular-expression
  tests of \<^verbatim>\<open>detectFileType\<close> and \<^verbatim>\<open>detectFilePurpose\<close> convert such a value to a string
  and return; \<^verbatim>\<open>analyzeStructure\<close>, the third field to be computed, calls
  \<^verbatim>\<open>content.split\<close> and throws a \<^verbatim>\<open>TypeError\<close>.
\<close>

datatype js_content = Text string | NonText

definition analyzeFileContent :: "string \<Rightarrow> js_content \<Rightarrow> string \<Rightarrow> failure + snapshot" where
  "analyzeFileContent filePath content lang =
     (case content of
        NonText \<Rightarrow> Inl TypeError
      | Text c \<Rightarrow>
          and_then (terminates (extractDependencies c lang)) (\<lambda>deps.
          and_then (terminates (extractExports c lang)) (\<lambda>exps.
          and_then (terminates (extractFunctions c lang)) (\<lambda>funs.
          and_then (terminates (extractClasses c lang)) (\<lambda>clss.
            Inr \<lparr> fc_path = filePath,
                  fc_language = lang,
                  fc_type = detectFileType filePath c,
                  purpose = detectFilePurpose filePath c,
                  fc_structure = analyzeStructureCounts c lang,
                  dependencies = deps,
                  fc_exports = exps,
                  fc_functions = funs,
                  fc_classes = clss,
                  fc_complexity = calculateComplexityFC c,
                  characteristics = detectCharacteristics c lang \<rparr>)))))"

section \<open>\<^verbatim>\<open>SecurityManager\<close> and \<^verbatim>\<open>Repository\<close> (\<^verbatim>\<open>src/git/security.js\<close>, \<^verbatim>\<open>src/git/repository.js\<close>)\<close>

subsection \<open>\<^verbatim>\<open>validateGitCommand\<close>\<close>

definition blockedCommands :: "string list" where
  "blockedCommands =
     [''git push'', ''git commit'', ''git merge'', ''git rebase'', ''git checkout -b'',
      ''git branch -d'', ''git branch -D'', ''git tag'', ''git reset'', ''git clean'',
      ''git rm'', ''git add'', ''git stash'', ''git cherry-pick'', ''git revert'',
      ''git config --set'', ''git config --unset'', ''git remote add'',
      ''git remote remove'', ''git remote set-url'']"

definition blockedPatterns :: "rx list" where
  "blockedPatterns =
     [Lit ''--force'',
      rx_seq [Lit ''-f'', WordB],
      Lit ''--hard'',
      Lit ''--soft'',
      Lit ''--mixed'',
      Lit ''>>'',
      rx_seq [Lit ''|'', Star Dot, Lit ''>''],
      rx_seq [Lit ''&&'', Star Dot, Lit ''>''],
      rx_seq [Lit '';'', Star Dot, Lit ''>'']]"

text \<open>True when the command passes; false when \<^verbatim>\<open>validateGitCommand\<close> throws.\<close>

definition validateGitCommand :: "string \<Rightarrow> bool" where
  "validateGitCommand command =
     (let normalizedCommand = js_toLowerCase (js_trim command)
      in \<not> list_ex (\<lambda>blocked. startsWith normalizedCommand blocked) blockedCommands
         \<and> \<not> list_ex (\<lambda>pattern. rx_test False pattern normalizedCommand) blockedPatterns)"

subsection \<open>Commits and filters\<close>

record commit =
  hash :: string
  abbrevHash :: string
  author :: string
  authorEmail :: string
  date :: string
  message :: string
  body :: string




subsection \<open>\<^verbatim>\<open>filterCommitRange\<close>\<close>



subsection \<open>\<^verbatim>\<open>getCommitHistory\<close>\<close>




subsection \<open>\<^verbatim>\<open>getFileContent\<close>\<close>

text \<open>
  \<open>git_show branch path\<close> is the content that \<^verbatim>\<open>git show branch:path\<close> prints, \<open>None\<close>
  when the command fails; the failure is caught and \<^verbatim>\<open>null\<close> is returned. The
  validation of the command stands before the \<^verbatim>\<open>try\<close> block.
\<close>

type_synonym git_show = "string \<Rightarrow> string \<Rightarrow> string option"

definition getFileContent :: "git_show \<Rightarrow> string \<Rightarrow> string \<Rightarrow> failure + string option" where
  "getFileContent gshow branch filePath =
     (if validateGitCommand (''git show '' @ branch @ '':'' @ filePath)
      then Inr (gshow branch filePath)
      else Inl CommandBlocked)"

section \<open>\<^verbatim>\<open>DiffAnalyzer\<close> (\<^verbatim>\<open>src/git/security.js\<close>, second module)\<close>

subsection \<open>\<^verbatim>\<open>getCommitsBetweenBranches\<close>\<close>


subsection \<open>\<^verbatim>\<open>detectCommitType\<close>\<close>

definition scope_part :: rx where
  "scope_part = rx_opt (Grp 1 (rx_seq [Lit ''('', rx_plus Dot, Lit '')'']))"

definition commit_types :: "string list" where
  "commit_types = [''feat'', ''fix'', ''docs'', ''style'', ''refactor'', ''test'', ''chore'',
     ''perf'', ''ci'', ''build'', ''revert'']"

definition type_pattern :: "string \<Rightarrow> rx" where
  "type_pattern t = rx_seq [Bol, Lit t, scope_part, Lit '':'']"

definition detectCommitType :: "string \<Rightarrow> string" where
  "detectCommitType msg =
     (case find (\<lambda>t. rx_test True (type_pattern t) msg) commit_types of
        Some t \<Rightarrow> t
      | None \<Rightarrow>
          if rx_test True (Lit ''merge'') msg then ''merge''
          else if rx_test True (Lit ''hotfix'') msg then ''hotfix''
          else if rx_test True (Alt (Lit ''bugfix'') (Lit ''bug'')) msg then ''fix''
          else if rx_test True (Lit ''feature'') msg then ''feat''
          else ''other'')"

subsection \<open>\<^verbatim>\<open>detectCommitPatterns\<close>\<close>

text \<open>
  \<^verbatim>\<open>commits.length * 0.7\<close> is a product of doubles. The double nearest to 0.7 is
  \<open>6305039478318694 / 2\<^sup>5\<^sup>3\<close>; the exact product with an integer is rounded to 53
  significant bits, a tie to the even neighbour. \<open>times_0_7 n\<close> is that product in units
  of \<open>2\<^sup>-\<^sup>5\<^sup>3\<close>. \<^verbatim>\<open>commits.length * 0.5\<close> is exact.
\<close>

fun bit_length :: "nat \<Rightarrow> nat" where
  "bit_length n = (if n = 0 then 0 else Suc (bit_length (n div 2)))"

declare bit_length.simps [simp del]

definition round53 :: "nat \<Rightarrow> nat" where
  "round53 x =
     (let b = bit_length x
      in if b \<le> 53 then x
         else (let sh = b - 53;
                   q = x div 2 ^ sh;
                   r = x mod 2 ^ sh;
                   half = 2 ^ (sh - 1)
               in (if half < r \<or> (r = half \<and> odd q) then q + 1 else q) * 2 ^ sh))"

definition times_0_7 :: "nat \<Rightarrow> nat" where
  "times_0_7 n = round53 (n * 6305039478318694)"

record commit_pattern =
  pattern_type :: string
  confidence :: string

definition conventionalRegex :: rx where
  "conventionalRegex = rx_seq [Bol,
     Grp 1 (rx_alt [Lit ''feat'', Lit ''fix'', Lit ''docs'', Lit ''style'', Lit ''refactor'',
                    Lit ''test'', Lit ''chore'', Lit ''perf'', Lit ''ci'', Lit ''build'']),
     rx_opt (Grp 2 (rx_seq [Lit ''('', rx_plus Dot, Lit '')''])), Lit '':'']"

definition ticketRegex :: rx where
  "ticketRegex = rx_seq [WordB, rx_plus (OneOf [Rng CHR ''A'' CHR ''Z'']), Lit ''-'', digit1,
     WordB]"

definition detectCommitPatterns :: "commit list \<Rightarrow> commit_pattern list" where
  "detectCommitPatterns commits =
     (let conventionalCommits = filter (\<lambda>c. rx_test True conventionalRegex (message c)) commits;
          hasTicketRefs = filter (\<lambda>c. rx_test False ticketRegex (message c)) commits
      in (if times_0_7 (length commits) < length conventionalCommits * 2 ^ 53
          then [\<lparr> pattern_type = ''conventional-commits'', confidence = ''high'' \<rparr>] else [])
       @ (if length commits < 2 * length hasTicketRefs
          then [\<lparr> pattern_type = ''ticket-references'', confidence = ''medium'' \<rparr>] else []))"

subsection \<open>\<^verbatim>\<open>getFileExtension\<close> and \<^verbatim>\<open>detectLanguage\<close>\<close>

definition getFileExtension :: "string \<Rightarrow> string" where
  "getFileExtension filePath =
     (let parts = js_split (CHR ''.'') filePath
      in if 1 < length parts then last parts else [])"

definition extensionMap :: "(string \<times> string) list" where
  "extensionMap =
     [(''js'', ''javascript''), (''jsx'', ''javascript''), (''ts'', ''typescript''),
      (''tsx'', ''typescript''), (''py'', ''python''), (''java'', ''java''), (''cpp'', ''cpp''),
      (''c'', ''c''), (''cs'', ''csharp''), (''go'', ''go''), (''rs'', ''rust''),
      (''rb'', ''ruby''), (''php'', ''php''), (''swift'', ''swift''), (''kt'', ''kotlin''),
      (''scala'', ''scala''), (''r'', ''r''), (''m'', ''objective-c''), (''lua'', ''lua''),
      (''dart'', ''dart''), (''html'', ''html''), (''css'', ''css''), (''scss'', ''scss''),
      (''sass'', ''sass''), (''less'', ''less''), (''json'', ''json''), (''xml'', ''xml''),
      (''yaml'', ''yaml''), (''yml'', ''yaml''), (''md'', ''markdown''), (''sql'', ''sql''),
      (''sh'', ''shell''), (''bash'', ''shell''), (''zsh'', ''shell''),
      (''dockerfile'', ''dockerfile''), (''makefile'', ''makefile'')]"

text \<open>
  \<^verbatim>\<open>extensionMap[extension] || 'unknown'\<close>. For the two lower-case property names of
  \<^verbatim>\<open>Object.prototype\<close> the lookup finds an object, not a string; the string
  \<^verbatim>\<open>[object]\<close> stands for it here: it equals no language name and is in no table.
\<close>

definition detectLanguage :: "string \<Rightarrow> string" where
  "detectLanguage filePath =
     (let ext = js_toLowerCase (getFileExtension filePath)
      in case map_of extensionMap ext of
           Some l \<Rightarrow> l
         | None \<Rightarrow> if ext = ''constructor'' \<or> ext = ''__proto__'' then ''[object]''
                   else ''unknown'')"

subsection \<open>\<^verbatim>\<open>compareVersions\<close>\<close>

definition compareVersions :: "string \<Rightarrow> string \<Rightarrow> version_comparison" where
  "compareVersions sourceContent targetContent =
     (let sourceLines = int (length (js_split newline sourceContent));
          targetLines = (if targetContent = [] then 0
                         else int (length (js_split newline targetContent)))
      in \<lparr> linesAdded = max 0 (targetLines - sourceLines),
           linesRemoved = max 0 (sourceLines - targetLines),
           sizeChange = targetLines - sourceLines \<rparr>)"

subsection \<open>\<^verbatim>\<open>analyzeFunctionalChanges\<close>\<close>

definition analyzeFunctionalChanges ::
    "string \<Rightarrow> string \<Rightarrow> string \<Rightarrow> failure + functional_changes" where
  "analyzeFunctionalChanges oldContent newContent lang =
     and_then (analyzeFileContent [] (Text oldContent) lang) (\<lambda>oldAnalysis.
     and_then (analyzeFileContent [] (Text newContent) lang) (\<lambda>newAnalysis.
       (let oldFuncNames = set (map fname (fc_functions oldAnalysis));
            newFuncNames = set (map fname (fc_functions newAnalysis));
            oldClassNames = set (map cname (fc_classes oldAnalysis));
            newClassNames = set (map cname (fc_classes newAnalysis));
            oldDeps = js_unique (dependencies oldAnalysis);
            newDeps = js_unique (dependencies newAnalysis)
        in Inr \<lparr> addedFunctions =
                   filter (\<lambda>n. n \<notin> oldFuncNames) (map fname (fc_functions newAnalysis)),
                 removedFunctions =
                   filter (\<lambda>n. n \<notin> newFuncNames) (map fname (fc_functions oldAnalysis)),
                 modifiedFunctions = [],
                 addedClasses =
                   filter (\<lambda>n. n \<notin> oldClassNames) (map cname (fc_classes newAnalysis)),
                 removedClasses =
                   filter (\<lambda>n. n \<notin> newClassNames) (map cname (fc_classes oldAnalysis)),
                 addedDependencies = filter (\<lambda>d. d \<notin> set oldDeps) newDeps,
                 removedDependencies = filter (\<lambda>d. d \<notin> set newDeps) oldDeps,
                 purposeChange =
                   (if purpose oldAnalysis \<noteq> purpose newAnalysis
                    then Some (purpose oldAnalysis, purpose newAnalysis) else None),
                 complexityChange =
                   int (fc_complexity newAnalysis) - int (fc_complexity oldAnalysis) \<rparr>)))"

section \<open>\<^verbatim>\<open>DiffAnalyzer.calculateImpact\<close>\<close>

text \<open>
  \<^verbatim>\<open>changes?.complexity?.cyclomatic > 10\<close> and \<^verbatim>\<open>changes?.issues?.security?.length > 0\<close>:
  an absent field compares as false.
\<close>

definition cyclomatic_above :: "changes_rec \<Rightarrow> nat \<Rightarrow> bool" where
  "cyclomatic_above ch n =
     (case analysis ch of
        Some (Full a) \<Rightarrow> n < cyclomatic (complexity a)
      | _ \<Rightarrow> False)"

definition has_security_issues :: "changes_rec \<Rightarrow> bool" where
  "has_security_issues ch =
     (case analysis ch of
        Some (Full a) \<Rightarrow> 0 < length (security (issues a))
      | _ \<Rightarrow> False)"

definition calculateImpact :: "file_analysis \<Rightarrow> impact_rec" where
  "calculateImpact fa =
     (let s0 = (0 :: rat);
          s1 = (if status fa = Added then s0 + 3 else s0);
          s2 = (if status fa = Deleted then s1 + 2 else s1);
          s3 = (if status fa = Modified then s2 + 1 else s2);
          s4 = (if js_includes (path fa) ''test'' then s3 * (1 / 2) else s3);
          s5 = (if js_includes (path fa) ''config'' then s4 * 2 else s4);
          s6 = (if js_includes (path fa) ''security'' then s5 * 3 else s5);
          s7 = (if cyclomatic_above (changes fa) 10 then s6 * (3 / 2) else s6);
          s8 = (if has_security_issues (changes fa) then s7 * 3 else s7)
      in \<lparr> score = js_round s8,
           level = (if s8 > 5 then High else if s8 > 2 then Medium else Low) \<rparr>)"

section \<open>\<^verbatim>\<open>DiffAnalyzer.analyzeFiles\<close>\<close>

text \<open>
  An entry of \<^verbatim>\<open>diff.files\<close>: the counts and the diff text are missing when
  \<^verbatim>\<open>getDiff\<close> could not read them.
\<close>

record diff_file =
  fd_path :: string
  fd_status :: file_status
  fd_additions :: "nat option"
  fd_deletions :: "nat option"
  fd_diff :: "string option"

record analyzed_file = file_analysis +
  impact :: impact_rec

text \<open>
  A computation that reads file contents: the calls of \<^verbatim>\<open>getFileContent\<close> it made, as
  pairs of ref and path in the order of the calls, and its result.
\<close>

type_synonym 'a reading = "(string \<times> string) list \<times> (failure + 'a)"

definition done_with :: "'a \<Rightarrow> 'a reading" where
  "done_with v = ([], Inr v)"

definition lifted :: "failure + 'a \<Rightarrow> 'a reading" where
  "lifted r = ([], r)"

definition next_do :: "'a reading \<Rightarrow> ('a \<Rightarrow> 'b reading) \<Rightarrow> 'b reading" where
  "next_do m f =
     (case m of
        (reads, Inl e) \<Rightarrow> (reads, Inl e)
      | (reads, Inr v) \<Rightarrow> (case f v of (reads', r) \<Rightarrow> (reads @ reads', r)))"

definition read_content :: "git_show \<Rightarrow> string \<Rightarrow> string \<Rightarrow> string option reading" where
  "read_content gshow branch filePath = ([(branch, filePath)], getFileContent gshow branch filePath)"

text \<open>The block for the status added or modified.\<close>

definition analyze_new_content ::
    "git_show \<Rightarrow> string \<Rightarrow> string \<Rightarrow> file_analysis \<Rightarrow> file_analysis reading" where
  "analyze_new_content gshow sourceBranch targetBranch fa =
     (if status fa = Added \<or> status fa = Modified
      then next_do (read_content gshow (if status fa = Added then sourceBranch else targetBranch)
                      (path fa))
             (\<lambda>content.
                case content of
                  None \<Rightarrow> done_with fa
                | Some c \<Rightarrow>
                    if c = [] then done_with fa
                    else next_do (lifted (analyzeFileContent (path fa) (Text c) (language fa)))
                           (\<lambda>snap. done_with
                              (fa \<lparr> contentAnalysis := Some snap,
                                    changes := \<lparr> analysis = Some (analyzeCode (Some c) (language fa)),
                                                 comparison = None \<rparr> \<rparr>)))
      else done_with fa)"

text \<open>The block for the status modified.\<close>

definition analyze_modification ::
    "git_show \<Rightarrow> string \<Rightarrow> string \<Rightarrow> file_analysis \<Rightarrow> file_analysis reading" where
  "analyze_modification gshow sourceBranch targetBranch fa =
     (if status fa = Modified
      then next_do (read_content gshow sourceBranch (path fa)) (\<lambda>sourceContent.
           next_do (read_content gshow targetBranch (path fa)) (\<lambda>targetContent.
             case (sourceContent, targetContent) of
               (Some s, Some t) \<Rightarrow>
                 if s \<noteq> [] \<and> t \<noteq> []
                 then next_do (lifted (analyzeFunctionalChanges s t (language fa)))
                        (\<lambda>fc. done_with
                           (fa \<lparr> changes := (changes fa) \<lparr> comparison := Some (compareVersions s t) \<rparr>,
                                 functionalChanges := Some fc \<rparr>))
                 else done_with fa
             | _ \<Rightarrow> done_with fa))
      else done_with fa)"

text \<open>The block for the status deleted.\<close>

definition analyze_deleted ::
    "git_show \<Rightarrow> string \<Rightarrow> string \<Rightarrow> file_analysis \<Rightarrow> file_analysis reading" where
  "analyze_deleted gshow sourceBranch targetBranch fa =
     (if status fa = Deleted
      then next_do (read_content gshow targetBranch (path fa))
             (\<lambda>content.
                case content of
                  None \<Rightarrow> done_with fa
                | Some c \<Rightarrow>
                    if c = [] then done_with fa
                    else next_do (lifted (analyzeFileContent (path fa) (Text c) (language fa)))
                           (\<lambda>snap. done_with (fa \<lparr> contentAnalysis := Some snap \<rparr>)))
      else done_with fa)"

text \<open>The body of the loop of \<^verbatim>\<open>analyzeFiles\<close> for one file.\<close>

definition analyzeFile ::
    "git_show \<Rightarrow> string \<Rightarrow> string \<Rightarrow> diff_file \<Rightarrow> analyzed_file reading" where
  "analyzeFile gshow sourceBranch targetBranch file =
     (let fileAnalysis =
            \<lparr> path = fd_path file,
              status = fd_status file,
              extension = getFileExtension (fd_path file),
              language = detectLanguage (fd_path file),
              changes = \<lparr> analysis = None, comparison = None \<rparr>,
              additions = (case fd_additions file of None \<Rightarrow> 0 | Some n \<Rightarrow> n),
              deletions = (case fd_deletions file of None \<Rightarrow> 0 | Some n \<Rightarrow> n),
              diff = (case fd_diff file of None \<Rightarrow> [] | Some d \<Rightarrow> d),
              contentAnalysis = None,
              functionalChanges = None \<rparr>
      in next_do (analyze_new_content gshow sourceBranch targetBranch fileAnalysis) (\<lambda>fa1.
         next_do (analyze_modification gshow sourceBranch targetBranch fa1) (\<lambda>fa2.
         next_do (analyze_deleted gshow sourceBranch targetBranch fa2) (\<lambda>fa3.
           done_with (file_analysis.extend fa3 \<lparr> impact = calculateImpact fa3 \<rparr>)))))"

fun analyzeFiles ::
    "git_show \<Rightarrow> diff_file list \<Rightarrow> string \<Rightarrow> string \<Rightarrow> analyzed_file list reading" where
  "analyzeFiles gshow [] sourceBranch targetBranch = done_with []"
| "analyzeFiles gshow (file # files) sourceBranch targetBranch =
     next_do (analyzeFile gshow sourceBranch targetBranch file) (\<lambda>a.
     next_do (analyzeFiles gshow files sourceBranch targetBranch) (\<lambda>rest.
       done_with (a # rest)))"

section \<open>Example records\<close>

definition plain_analysis :: "nat \<Rightarrow> code_analysis" where
  "plain_analysis cyc =
     \<lparr> ca_language = ''javascript'',
       metrics = \<lparr> totalLines = 1, codeLines = 1, emptyLines = 0, commentLines = 0,
                   averageLineLength = 1, longestLine = 1 \<rparr>,
       complexity = \<lparr> cyclomatic = cyc, cognitive = 0, nesting = 0,
                      halstead = \<lparr> vocabulary = 0, hlength = 0 \<rparr> \<rparr>,
       ca_structure = \<lparr> st_functions = [], st_classes = [], st_imports = [],
                     st_exports = [], st_interfaces = [], st_types = [] \<rparr>,
       issues = \<lparr> bugs = [], security = [], performance = [], style = [],
                  maintenance = [] \<rparr>,
       quality = \<lparr> q_score = 95, grade = ''A'',
                   factors = \<lparr> f_complexity = ''good'', f_size = ''good'',
                                f_documentation = ''insufficient'' \<rparr> \<rparr> \<rparr>"

definition example_file :: "string \<Rightarrow> file_status \<Rightarrow> nat \<Rightarrow> file_analysis" where
  "example_file p st cyc =
     \<lparr> path = p, status = st, extension = ''js'', language = ''javascript'',
       changes = \<lparr> analysis = Some (Full (plain_analysis cyc)), comparison = None \<rparr>,
       additions = 0, deletions = 0, diff = [],
       contentAnalysis = None, functionalChanges = None \<rparr>"

text \<open>
  The same file record with another cyclomatic complexity in its code analysis: every
  other field is kept.
\<close>

definition with_cyclomatic :: "nat \<Rightarrow> code_analysis \<Rightarrow> file_analysis \<Rightarrow> file_analysis" where
  "with_cyclomatic n a fa =
     fa \<lparr> status := Modified,
          changes := (changes fa) \<lparr> analysis :=
            Some (Full (a \<lparr> complexity := (complexity a) \<lparr> cyclomatic := n \<rparr> \<rparr>)) \<rparr> \<rparr>"

text \<open>A content that is no text: a zero byte, a line feed and the byte 255.\<close>

definition binary_sample :: string where
  "binary_sample = [CHR 0x00, CHR 0x0A, CHR 0xFF]"

text \<open>The two contents of the end-to-end scenario.\<close>

definition old_content :: string where
  "old_content = ''function foo(){}''"

definition new_content :: string where
  "new_content = ''function foo(){} function bar(){} const axios = require(''
      @ [squote] @ ''axios'' @ [squote] @ '');''"

definition mk_func :: "string \<Rightarrow> func_kind \<Rightarrow> func_info" where
  "mk_func n k = \<lparr> fname = n, params = [], is_async = False, fkind = k \<rparr>"

text \<open>Commits and a git log with a branch \<^verbatim>\<open>feature\<close> two commits ahead of \<^verbatim>\<open>main\<close>.\<close>

definition mk_commit :: "string \<Rightarrow> string \<Rightarrow> string \<Rightarrow> commit" where
  "mk_commit h a m = \<lparr> hash = h, abbrevHash = take 7 h, author = a, authorEmail = [],
     date = [], message = m, body = [] \<rparr>"

definition revert_commit :: commit where
  "revert_commit = mk_commit ''9fceb02d0ae598e95dc970b74767f19372d61af8'' ''dev''
     ''revert: undo the last change''"

definition c1 :: commit where "c1 = mk_commit ''1111111aaaa'' ''ann'' ''feat: one''"
definition c2 :: commit where "c2 = mk_commit ''2222222bbbb'' ''bob'' ''fix: two''"
definition c3 :: commit where "c3 = mk_commit ''3333333cccc'' ''ann'' ''docs: three''"


text \<open>A deleted and an added entry of a diff.\<close>

definition deleted_file :: diff_file where
  "deleted_file = \<lparr> fd_path = ''src/old.js'', fd_status = Deleted, fd_additions = Some 0,
     fd_deletions = Some 3, fd_diff = None \<rparr>"

definition added_file :: diff_file where
  "added_file = \<lparr> fd_path = ''src/new.js'', fd_status = Added, fd_additions = Some 5,
     fd_deletions = Some 0, fd_diff = None \<rparr>"

definition example_show :: git_show where
  "example_show branch filePath =
     (if branch = ''main'' \<and> filePath = ''src/old.js'' then Some ''function gone(){}''
      else if branch = ''feature'' \<and> filePath = ''src/new.js'' then Some ''const a = 1;''
      else None)"

section \<open>Matches of the regular expressions\<close>

text \<open>
  Every match of an expression is at least \<open>min_len\<close> long. A loop over \<^verbatim>\<open>exec\<close>
  therefore ends for every expression whose matches cannot be empty.
\<close>

lemma lit_match_length:
  "lit_match ci l p s = Some (p', s') \<Longrightarrow> length s' + length l = length s"
  by (induction ci l p s rule: lit_match.induct) (auto split: if_splits)

lemma one_char_length:
  "st' \<in> set (one_char ok st) \<Longrightarrow> Suc (length (fst (snd st'))) = length (fst (snd st))"
  by (auto simp: one_char_def split: prod.splits list.splits if_splits)

lemma rx_run_consumes:
  "st' \<in> set (rx_run ci r st) \<Longrightarrow> length (fst (snd st')) + min_len r \<le> length (fst (snd st))"
proof (induction ci r st arbitrary: st' rule: rx_run.induct)
  case (2 ci l st)
  then show ?case
    by (auto split: prod.splits option.splits dest: lit_match_length [OF sym])
next
  case (3 ci items st)
  then show ?case using one_char_length by fastforce
next
  case (4 ci items st)
  then show ?case using one_char_length by fastforce
next
  case (5 ci st)
  then show ?case using one_char_length by fastforce
next
  case (6 ci a b st)
  from "6.prems" obtain st1 where a: "st1 \<in> set (rx_run ci a st)" and b: "st' \<in> set (rx_run ci b st1)"
    by auto
  from "6.IH"(1) [OF a] "6.IH"(2) [OF a b] show ?case by simp
next
  case (7 ci a b st)
  then show ?case by fastforce
next
  case (8 ci r st)
  from "8.prems" have "st' \<in> set (concat (map (\<lambda>st1.
        if length (fst (snd st1)) < length (fst (snd st)) then rx_run ci (Star r) st1 else [])
      (rx_run ci r st)) @ [st])"
    by (subst (asm) rx_run.simps(8))
  then consider "st' = st"
    | st1 where "st1 \<in> set (rx_run ci r st)" "length (fst (snd st1)) < length (fst (snd st))"
        "st' \<in> set (rx_run ci (Star r) st1)"
    by (auto simp del: rx_run.simps split: if_splits)
  then show ?case
  proof cases
    case 1
    then show ?thesis by simp
  next
    case 2
    from "8.IH"(2) [OF 2(1) 2(2) 2(3)] 2(2) show ?thesis by simp
  qed
next
  case (9 ci r st)
  from "9.prems" have "st' \<in> set (st # concat (map (\<lambda>st1.
        if length (fst (snd st1)) < length (fst (snd st)) then rx_run ci (LazyStar r) st1 else [])
      (rx_run ci r st)))"
    by (subst (asm) rx_run.simps(9))
  then consider "st' = st"
    | st1 where "st1 \<in> set (rx_run ci r st)" "length (fst (snd st1)) < length (fst (snd st))"
        "st' \<in> set (rx_run ci (LazyStar r) st1)"
    by (auto simp del: rx_run.simps split: if_splits)
  then show ?case
  proof cases
    case 1
    then show ?thesis by simp
  next
    case 2
    from "9.IH"(2) [OF 2(1) 2(2) 2(3)] 2(2) show ?thesis by simp
  qed
next
  case (10 ci n r st)
  then show ?case by (fastforce simp: set_cap_def split: prod.splits)
qed (auto split: if_splits option.splits)

lemma rx_at_length:
  "rx_at ci r p s = Some (n, caps) \<Longrightarrow> min_len r \<le> n \<and> n \<le> length s"
proof -
  assume a: "rx_at ci r p s = Some (n, caps)"
  then obtain st rest where run: "rx_run ci r (p, s, []) = st # rest"
    and n: "n = length s - length (fst (snd st))"
    by (auto simp: rx_at_def split: list.splits)
  have "st \<in> set (rx_run ci r (p, s, []))" using run by simp
  from rx_run_consumes [OF this] have "length (fst (snd st)) + min_len r \<le> length s" by simp
  with n show ?thesis by simp
qed

lemma rx_search_length:
  "rx_search ci r p s = Some (i, n, caps) \<Longrightarrow> min_len r \<le> n \<and> i + n \<le> length s"
proof (induction ci r p s arbitrary: i n caps rule: rx_search.induct)
  case (1 ci r p)
  then show ?case by (auto split: option.splits dest: rx_at_length)
next
  case (2 ci r p c cs)
  show ?case
  proof (cases "rx_at ci r p (c # cs)")
    case None
    with "2.prems" obtain j where j: "rx_search ci r (Some c) cs = Some (j, n, caps)" "i = Suc j"
      by (auto split: option.splits)
    from "2.IH" [OF None j(1)] j(2) show ?thesis by simp
  next
    case (Some a)
    with "2.prems" have "rx_at ci r p (c # cs) = Some (n, caps)" "i = 0"
      by (auto split: prod.splits)
    then show ?thesis using rx_at_length by fastforce
  qed
qed

lemma rx_all_lengths:
  "m \<in> set (rx_all ci r p s) \<Longrightarrow> min_len r \<le> length (fst m)"
proof (induction "length s" arbitrary: s p m rule: less_induct)
  case less
  show ?case
  proof (cases "rx_search ci r p s")
    case None
    with less.prems show ?thesis by (simp add: rx_all.simps [of ci r p s])
  next
    case (Some t)
    obtain i n caps where t: "t = (i, n, caps)" by (cases t) auto
    from rx_search_length [of ci r p s i n caps] Some t
    have len: "min_len r \<le> n" "i + n \<le> length s" by simp_all
    define k where "k = i + max n 1"
    have unfold: "rx_all ci r p s = (take n (drop i s), caps) #
        (if 0 < k \<and> k \<le> length s then rx_all ci r (Some (s ! (k - 1))) (drop k s) else [])"
      unfolding k_def using Some t by (simp add: rx_all.simps [of ci r p s] Let_def)
    from less.prems unfold
    consider "m = (take n (drop i s), caps)"
      | "0 < k" "k \<le> length s" "m \<in> set (rx_all ci r (Some (s ! (k - 1))) (drop k s))"
      by (auto split: if_splits)
    then show ?thesis
    proof cases
      case 1
      with len show ?thesis by simp
    next
      case 2
      have "length (drop k s) < length s" using 2(1) 2(2) by simp
      from less.hyps [OF this 2(3)] show ?thesis .
    qed
  qed
qed

lemma exec_loop_terminates:
  "0 < min_len r \<Longrightarrow> exec_loop ci r s = Some (match_all ci r s)"
proof -
  assume pos: "0 < min_len r"
  have "\<not> list_ex (\<lambda>m. fst m = []) (match_all ci r s)"
    unfolding list_ex_iff match_all_def
    using rx_all_lengths [of _ ci r None s] pos by fastforce
  then show ?thesis by (simp add: exec_loop_def Let_def)
qed

section \<open>\<^verbatim>\<open>analyzeFileContent\<close> returns on every text\<close>

lemma js_split_nonempty: "js_split d s \<noteq> []"
  by (induction s) (auto split: list.splits)

lemma exec_loops_terminate:
  "exec_loop False importRegex c = Some (match_all False importRegex c)"
  "exec_loop False requireRegex c = Some (match_all False requireRegex c)"
  "exec_loop False pythonImportRegex c = Some (match_all False pythonImportRegex c)"
  "exec_loop False namedExportRegex c = Some (match_all False namedExportRegex c)"
  "exec_loop False exportFromRegex c = Some (match_all False exportFromRegex c)"
  "exec_loop False funcDeclRegex c = Some (match_all False funcDeclRegex c)"
  "exec_loop False arrowFuncRegex c = Some (match_all False arrowFuncRegex c)"
  "exec_loop False methodRegex c = Some (match_all False methodRegex c)"
  "exec_loop False classRegex c = Some (match_all False classRegex c)"
  by (rule exec_loop_terminates,
      simp add: importRegex_def requireRegex_def pythonImportRegex_def namedExportRegex_def
        exportFromRegex_def funcDeclRegex_def arrowFuncRegex_def methodRegex_def classRegex_def
        sp0_def sp1_def word1_def rx_plus_def rx_opt_def quote_class_def any_char_def)+

lemma extractors_return:
  "\<exists>deps. extractDependencies c lang = Some deps"
  "\<exists>exps. extractExports c lang = Some exps"
  "\<exists>funs. extractFunctions c lang = Some funs"
  "\<exists>clss. extractClasses c lang = Some clss"
  by (simp_all add: extractDependencies_def extractExports_def extractFunctions_def
      extractClasses_def exec_loops_terminate)

lemma analyzeFileContent_Text:
  "\<exists>deps exps funs clss.
     extractDependencies c lang = Some deps \<and> extractExports c lang = Some exps
     \<and> extractFunctions c lang = Some funs \<and> extractClasses c lang = Some clss
     \<and> analyzeFileContent filePath (Text c) lang =
         Inr \<lparr> fc_path = filePath,
               fc_language = lang,
               fc_type = detectFileType filePath c,
               purpose = detectFilePurpose filePath c,
               fc_structure = analyzeStructureCounts c lang,
               dependencies = deps,
               fc_exports = exps,
               fc_functions = funs,
               fc_classes = clss,
               fc_complexity = calculateComplexityFC c,
               characteristics = detectCharacteristics c lang \<rparr>"
proof -
  from extractors_return [of c lang] obtain deps exps funs clss where
    e: "extractDependencies c lang = Some deps" "extractExports c lang = Some exps"
       "extractFunctions c lang = Some funs" "extractClasses c lang = Some clss"
    by blast
  then show ?thesis
    by (simp add: analyzeFileContent_def and_then_def terminates_def)
qed

lemma detectFilePurpose_nonempty: "detectFilePurpose filePath c \<noteq> []"
  unfolding detectFilePurpose_def Let_def by (simp split del: if_split) auto

section \<open>Commit lists\<close>







lemma revert_type: "detectCommitType (message revert_commit) = ''revert''"
  by code_simp

lemma revert_not_conventional: "\<not> rx_test True conventionalRegex (message revert_commit)"
  by code_simp

lemma revert_no_ticket: "\<not> rx_test False ticketRegex (message revert_commit)"
  by code_simp

text \<open>
  The threshold of the conventional-commit pattern is a product of doubles: for 90 commits
  it is just below 63, so 63 matching commits, which are 70 percent, pass it.
\<close>

lemma boundary_70_percent:
  "times_0_7 90 < 63 * 2 ^ 53"
  by (simp add: times_0_7_def round53_def bit_length.simps Let_def)

section \<open>The reads of \<^verbatim>\<open>analyzeFiles\<close>\<close>

lemma next_do_reads:
  "fst (next_do m f) = (case snd m of Inl e \<Rightarrow> fst m | Inr v \<Rightarrow> fst m @ fst (f v))"
  by (cases m) (auto simp: next_do_def split: sum.splits prod.splits)

lemma done_with_reads: "fst (done_with v) = []"
  by (simp add: done_with_def)

lemma lifted_reads: "fst (lifted r) = []"
  by (simp add: lifted_def)

lemma analyze_new_content_added:
  "status fa = Added \<Longrightarrow>
     fst (analyze_new_content gshow src tgt fa) = [(src, path fa)]
     \<and> (case snd (analyze_new_content gshow src tgt fa) of
          Inl e \<Rightarrow> True | Inr fa' \<Rightarrow> status fa' = Added \<and> path fa' = path fa)"
  by (auto simp: analyze_new_content_def next_do_def done_with_def lifted_def read_content_def
      split: sum.splits option.splits prod.splits)

lemma analyze_new_content_other:
  "status fa \<noteq> Added \<Longrightarrow> status fa \<noteq> Modified \<Longrightarrow>
     analyze_new_content gshow src tgt fa = ([], Inr fa)"
  by (simp add: analyze_new_content_def done_with_def)

lemma analyze_modification_other:
  "status fa \<noteq> Modified \<Longrightarrow> analyze_modification gshow src tgt fa = ([], Inr fa)"
  by (simp add: analyze_modification_def done_with_def)

lemma analyze_deleted_other:
  "status fa \<noteq> Deleted \<Longrightarrow> analyze_deleted gshow src tgt fa = ([], Inr fa)"
  by (simp add: analyze_deleted_def done_with_def)

lemma analyze_deleted_deleted:
  "status fa = Deleted \<Longrightarrow>
     fst (analyze_deleted gshow src tgt fa) = [(tgt, path fa)]
     \<and> (case snd (analyze_deleted gshow src tgt fa) of
          Inl e \<Rightarrow> True
        | Inr fa' \<Rightarrow> changes fa' = changes fa \<and> functionalChanges fa' = functionalChanges fa)"
  by (auto simp: analyze_deleted_def next_do_def done_with_def lifted_def read_content_def
      split: sum.splits option.splits prod.splits)

lemma next_do_pure: "next_do ([], Inr v) f = f v"
  by (cases "f v") (simp add: next_do_def)

text \<open>
  The deleted example file: its content is read at \<^verbatim>\<open>main\<close>, the target ref, and
  classified.
\<close>

lemma valid_show_old: "validateGitCommand ''git show main:src/old.js''"
  by code_simp

lemma old_js_type: "detectFileType ''src/old.js'' ''function gone(){}'' = ''javascript''"
  by code_simp

lemma old_js_language: "detectLanguage ''src/old.js'' = ''javascript''"
  by code_simp

lemma deleted_example_classified:
  "map_sum id (map_option fc_type \<circ> contentAnalysis)
     (snd (analyzeFile example_show ''feature'' ''main'' deleted_file)) = Inr (Some ''javascript'')"
proof -
  from analyzeFileContent_Text [of "''function gone(){}''" "''javascript''" "''src/old.js''"]
  obtain snap where s: "analyzeFileContent ''src/old.js'' (Text ''function gone(){}'') ''javascript'' = Inr snap"
    and t: "fc_type snap = ''javascript''"
    using old_js_type by auto
  have g: "getFileContent example_show ''main'' ''src/old.js'' = Inr (Some ''function gone(){}'')"
    using valid_show_old by (simp add: getFileContent_def example_show_def)
  show ?thesis
    by (simp add: analyzeFile_def deleted_file_def analyze_new_content_def
        analyze_modification_def analyze_deleted_def next_do_def done_with_def lifted_def
        read_content_def old_js_language g s t Let_def file_analysis.defs)
qed

section \<open>The end-to-end scenario\<close>

lemma old_functions:
  "extractFunctions old_content ''javascript'' = Some [mk_func ''foo'' Declared, mk_func ''foo'' Method]"
  by code_simp

lemma new_functions:
  "extractFunctions new_content ''javascript'' =
     Some [mk_func ''foo'' Declared, mk_func ''bar'' Declared,
           mk_func ''foo'' Method, mk_func ''bar'' Method]"
  by code_simp

lemma old_classes: "extractClasses old_content ''javascript'' = Some []"
  by code_simp

lemma new_classes: "extractClasses new_content ''javascript'' = Some []"
  by code_simp

lemma old_dependencies: "extractDependencies old_content ''javascript'' = Some []"
  by code_simp

lemma new_dependencies: "extractDependencies new_content ''javascript'' = Some [''axios'']"
  by code_simp

lemma old_purpose: "detectFilePurpose [] old_content = [GenericModule]"
  by code_simp

lemma new_purpose: "detectFilePurpose [] new_content = [ApiCommunication]"
  by code_simp

lemma old_complexity: "calculateComplexityFC old_content = 1"
  by code_simp

lemma new_complexity: "calculateComplexityFC new_content = 1"
  by code_simp

lemma scenario_result:
  "analyzeFunctionalChanges old_content new_content ''javascript'' =
     Inr \<lparr> addedFunctions = [''bar'', ''bar''],
           removedFunctions = [],
           modifiedFunctions = [],
           addedClasses = [],
           removedClasses = [],
           addedDependencies = [''axios''],
           removedDependencies = [],
           purposeChange = Some ([GenericModule], [ApiCommunication]),
           complexityChange = 0 \<rparr>"
proof -
  from analyzeFileContent_Text [of old_content "''javascript''" "[]"]
  obtain exps where o: "analyzeFileContent [] (Text old_content) ''javascript'' =
      Inr \<lparr> fc_path = [], fc_language = ''javascript'',
            fc_type = detectFileType [] old_content,
            purpose = [GenericModule],
            fc_structure = analyzeStructureCounts old_content ''javascript'',
            dependencies = [],
            fc_exports = exps,
            fc_functions = [mk_func ''foo'' Declared, mk_func ''foo'' Method],
            fc_classes = [],
            fc_complexity = 1,
            characteristics = detectCharacteristics old_content ''javascript'' \<rparr>"
    by (auto simp: old_functions old_classes old_dependencies old_purpose old_complexity)
  from analyzeFileContent_Text [of new_content "''javascript''" "[]"]
  obtain exps' where n: "analyzeFileContent [] (Text new_content) ''javascript'' =
      Inr \<lparr> fc_path = [], fc_language = ''javascript'',
            fc_type = detectFileType [] new_content,
            purpose = [ApiCommunication],
            fc_structure = analyzeStructureCounts new_content ''javascript'',
            dependencies = [''axios''],
            fc_exports = exps',
            fc_functions = [mk_func ''foo'' Declared, mk_func ''bar'' Declared,
                            mk_func ''foo'' Method, mk_func ''bar'' Method],
            fc_classes = [],
            fc_complexity = 1,
            characteristics = detectCharacteristics new_content ''javascript'' \<rparr>"
    by (auto simp: new_functions new_classes new_dependencies new_purpose new_complexity)
  show ?thesis
    unfolding analyzeFunctionalChanges_def o n
    by (simp add: and_then_def Let_def mk_func_def js_unique_def)
qed

section \<open>Properties of the impact score\<close>

lemma floor_rat_numeral:
  "\<lfloor>(numeral a / numeral b :: rat)\<rfloor> = numeral a div numeral b"
  using floor_divide_of_int_eq [of "numeral a" "numeral b", where ?'a = rat] by simp

lemma js_round_numeral_quot:
  "js_round (numeral a / numeral b) = (2 * numeral a + numeral b) div (2 * numeral b)"
proof -
  have "(numeral a / numeral b :: rat) + 1 / 2
        = of_int (2 * numeral a + numeral b) / of_int (2 * numeral b)"
    by (simp add: field_simps)
  then show ?thesis
    unfolding js_round_def using floor_divide_of_int_eq [where ?'a = rat] by metis
qed

lemma js_round_of_int: "js_round (of_int k) = k"
  unfolding js_round_def by linarith

text \<open>
  C1 (as amended). The score is the rounded product of the status base (3 added,
  2 deleted, 1 modified, 0 for any other status) with 0.5 for a path containing "test",
  2 for "config", 3 for "security", 1.5 for a cyclomatic complexity above 10 and 3 for a
  detected security issue. The level is bucketed from the product before rounding: high
  above 5, medium above 2, low otherwise.
\<close>

theorem calculateImpact_formula:
  "calculateImpact fa =
     (let p = (case status fa of Added \<Rightarrow> 3 | Deleted \<Rightarrow> 2 | Modified \<Rightarrow> 1 | _ \<Rightarrow> 0)
              * (if js_includes (path fa) ''test'' then 1 / 2 else 1)
              * (if js_includes (path fa) ''config'' then 2 else 1)
              * (if js_includes (path fa) ''security'' then 3 else 1)
              * (if cyclomatic_above (changes fa) 10 then 3 / 2 else 1)
              * (if has_security_issues (changes fa) then 3 else 1)
      in \<lparr> score = js_round p,
           level = (if p > 5 then High else if p > 2 then Medium else Low) \<rparr>)"
  by (cases "status fa") (simp_all add: calculateImpact_def Let_def)

text \<open>
  The claim as written derives the level from the rounded score. An added file
  \<^verbatim>\<open>test.js\<close> with cyclomatic complexity 11 has the product 2.25: the score is 2 and the
  level is medium, where the rounded score would give low.
\<close>

theorem calculateImpact_level_counterexample:
  "score (calculateImpact (example_file ''test.js'' Added 11)) = 2
   \<and> level (calculateImpact (example_file ''test.js'' Added 11)) = Medium"
  by (simp add: calculateImpact_def example_file_def plain_analysis_def
      cyclomatic_above_def has_security_issues_def Let_def js_round_numeral_quot)

lemma js_round_numeral: "js_round (numeral k) = numeral k"
  using js_round_of_int [of "numeral k"] by simp

lemma js_round_one: "js_round 1 = 1"
  using js_round_of_int [of 1] by simp

lemma js_round_one_quot: "js_round (1 / numeral b) = (2 + numeral b) div (2 * numeral b)"
  using js_round_numeral_quot [of Num.One b] by simp

text \<open>
  C3 (as amended). Of two modified-file records that differ only in cyclomatic
  complexity, the one with complexity 15 never has a lower impact score than the one with
  complexity 5, and it has a strictly higher score whenever the path does not contain
  "test".
\<close>

theorem impact_monotone_in_complexity:
  "score (calculateImpact (with_cyclomatic 5 a fa))
     \<le> score (calculateImpact (with_cyclomatic 15 a fa))
   \<and> (js_includes (path fa) ''test''
      \<or> score (calculateImpact (with_cyclomatic 5 a fa))
          < score (calculateImpact (with_cyclomatic 15 a fa)))"
  by (simp add: calculateImpact_def with_cyclomatic_def cyclomatic_above_def
      has_security_issues_def Let_def js_round_numeral_quot js_round_numeral js_round_one
      js_round_one_quot)

theorem impact_monotone_witness:
  "score (calculateImpact (with_cyclomatic 5 (plain_analysis 0)
            (example_file ''src/app.js'' Modified 0)))
     < score (calculateImpact (with_cyclomatic 15 (plain_analysis 0)
            (example_file ''src/app.js'' Modified 0)))"
  using impact_monotone_in_complexity
    [of "plain_analysis 0" "example_file ''src/app.js'' Modified 0"]
  by (simp add: example_file_def)

text \<open>
  The claim as written asks for a strictly higher score on every path. For the modified
  file \<^verbatim>\<open>test.js\<close> the products are 0.5 and 0.75, and both round to 1.
\<close>

theorem impact_not_strict_counterexample:
  "\<not> score (calculateImpact (with_cyclomatic 5 (plain_analysis 0)
              (example_file ''test.js'' Modified 0)))
       < score (calculateImpact (with_cyclomatic 15 (plain_analysis 0)
              (example_file ''test.js'' Modified 0)))"
  by (simp add: calculateImpact_def with_cyclomatic_def cyclomatic_above_def
      has_security_issues_def Let_def js_round_numeral_quot js_round_numeral js_round_one
      js_round_one_quot example_file_def plain_analysis_def)

section \<open>Properties of the quality score\<close>


lemma if_sub: "(if c then x - k else x) = x - (if c then k else (0::int))"
  by simp

lemma q_score_formula:
  "q_score (assessQuality content lang) =
     max 0 (min 100
       (100
        - (if 10 < cyclomatic (calculateComplexity content lang) then 10 else 0)
        - (if 20 < cyclomatic (calculateComplexity content lang) then 10 else 0)
        - (if 5 < nesting (calculateComplexity content lang) then 5 else 0)
        - (if 500 < totalLines (calculateMetrics content) then 5 else 0)
        - (if 1000 < totalLines (calculateMetrics content) then 10 else 0)
        - (if commentRatio (calculateMetrics content) < 1 / 10 then 5 else 0)))"
  unfolding assessQuality_def Let_def if_sub by simp

lemma grade_of_score:
  "grade (assessQuality content lang) = getGrade (q_score (assessQuality content lang))"
  unfolding assessQuality_def Let_def by simp

lemma getGrade_cases:
  "s \<le> 59 \<and> getGrade s = ''F'' \<or> 60 \<le> s \<and> getGrade s \<in> {''A'', ''B'', ''C'', ''D''}"
  by (simp add: getGrade_def)

lemma if_amount_bounds: "0 \<le> k \<Longrightarrow> 0 \<le> (if c then k else (0::int)) \<and> (if c then k else 0) \<le> k"
  by simp



text \<open>
  C10. The quality score is at least 55: the six deductions sum to at most 45, so the
  clamp at 0 is never reached. The grade is F for a score from 55 to 59 and one of A to D
  for a score of 60 or more.
\<close>

theorem assessQuality_lower_bound:
  "55 \<le> q_score (assessQuality content lang)
   \<and> q_score (assessQuality content lang) \<le> 100
   \<and> (q_score (assessQuality content lang) \<le> 59 \<and> grade (assessQuality content lang) = ''F''
      \<or> 60 \<le> q_score (assessQuality content lang)
        \<and> grade (assessQuality content lang) \<in> {''A'', ''B'', ''C'', ''D''})"
proof -
  define d1 :: int where "d1 = (if 10 < cyclomatic (calculateComplexity content lang) then 10 else 0)"
  define d2 :: int where "d2 = (if 20 < cyclomatic (calculateComplexity content lang) then 10 else 0)"
  define d3 :: int where "d3 = (if 5 < nesting (calculateComplexity content lang) then 5 else 0)"
  define d4 :: int where "d4 = (if 500 < totalLines (calculateMetrics content) then 5 else 0)"
  define d5 :: int where "d5 = (if 1000 < totalLines (calculateMetrics content) then 10 else 0)"
  define d6 :: int where "d6 = (if commentRatio (calculateMetrics content) < 1 / 10 then 5 else 0)"
  have eq: "q_score (assessQuality content lang) = max 0 (min 100 (100 - d1 - d2 - d3 - d4 - d5 - d6))"
    unfolding d1_def d2_def d3_def d4_def d5_def d6_def by (rule q_score_formula)
  have b: "0 \<le> d1 \<and> d1 \<le> 10" "0 \<le> d2 \<and> d2 \<le> 10" "0 \<le> d3 \<and> d3 \<le> 5"
    "0 \<le> d4 \<and> d4 \<le> 5" "0 \<le> d5 \<and> d5 \<le> 10" "0 \<le> d6 \<and> d6 \<le> 5"
    unfolding d1_def d2_def d3_def d4_def d5_def d6_def by (rule if_amount_bounds, simp)+
  have range: "55 \<le> q_score (assessQuality content lang) \<and> q_score (assessQuality content lang) \<le> 100"
    using eq b by linarith
  show ?thesis
    using range getGrade_cases [of "q_score (assessQuality content lang)"]
      grade_of_score [of content lang] by simp
qed

section \<open>Properties of \<^verbatim>\<open>analyzeCode\<close>\<close>


section \<open>Properties of \<^verbatim>\<open>analyzeFileContent\<close>\<close>

text \<open>
  C4 (as amended). For every path and every text content \<^verbatim>\<open>analyzeFileContent\<close>
  returns a snapshot without throwing and without looping. The content is never tested
  for being text: the type is what \<^verbatim>\<open>detectFileType\<close> finds from the file name, the
  content patterns and the extension, the purpose list is not empty, and the structure
  record counts at least one line.
\<close>

theorem analyzeFileContent_text_returns:
  "\<exists>snap. analyzeFileContent filePath (Text c) lang = Inr snap
      \<and> fc_path snap = filePath
      \<and> fc_type snap = detectFileType filePath c
      \<and> purpose snap = detectFilePurpose filePath c
      \<and> purpose snap \<noteq> []
      \<and> fc_structure snap = analyzeStructureCounts c lang
      \<and> 1 \<le> lines_count (fc_structure snap)
      \<and> 1 \<le> fc_complexity snap"
proof -
  have lines: "1 \<le> lines_count (analyzeStructureCounts c lang)"
    using js_split_nonempty [of newline c]
    by (cases "js_split newline c") (simp_all add: analyzeStructureCounts_def Let_def)
  have cx: "1 \<le> calculateComplexityFC c"
    by (simp add: calculateComplexityFC_def)
  from analyzeFileContent_Text [of c lang filePath] lines cx detectFilePurpose_nonempty [of filePath c]
  show ?thesis by auto
qed

text \<open>
  The claim as written promises a result for every content and the type "unknown" with
  an empty structure record for a content that is no text. A content that is no string
  makes \<^verbatim>\<open>content.split\<close> throw, and the bytes of \<open>binary_sample\<close> under the path
  \<^verbatim>\<open>setup.bin\<close> are classified as a configuration file of two lines.
\<close>

theorem analyzeFileContent_no_degradation_counterexample:
  "analyzeFileContent ''setup.bin'' NonText ''unknown'' = Inl TypeError
   \<and> map_sum id fc_type (analyzeFileContent ''setup.bin'' (Text binary_sample) ''unknown'')
       = Inr ''configuration''
   \<and> map_sum id (lines_count \<circ> fc_structure)
         (analyzeFileContent ''setup.bin'' (Text binary_sample) ''unknown'') = Inr 2"
proof -
  have t: "detectFileType ''setup.bin'' binary_sample = ''configuration''"
    by code_simp
  have l: "lines_count (analyzeStructureCounts binary_sample ''unknown'') = 2"
    by code_simp
  have n: "analyzeFileContent ''setup.bin'' NonText ''unknown'' = Inl TypeError"
    by (simp add: analyzeFileContent_def)
  from analyzeFileContent_Text [of binary_sample "''unknown''" "''setup.bin''"] t l n
  show ?thesis by auto
qed

section \<open>Properties of \<^verbatim>\<open>analyzeFunctionalChanges\<close>\<close>

text \<open>
  C2 (as amended). On the old content \<^verbatim>\<open>function foo(){}\<close> and the new content
  \<^verbatim>\<open>function foo(){} function bar(){} const axios = require('axios');\<close> the functional
  changes have \<^verbatim>\<open>bar\<close> as the only added function name, the added dependency
  \<^verbatim>\<open>axios\<close>, no removed function and no removed class, a complexity change equal to
  the new complexity minus the old one, and a purpose change from the generic module tag
  to the API communication tag, because the new content mentions \<^verbatim>\<open>axios\<close>.
\<close>

theorem functional_changes_scenario:
  "map_sum id (set \<circ> addedFunctions)
       (analyzeFunctionalChanges old_content new_content ''javascript'') = Inr {''bar''}
   \<and> map_sum id addedDependencies
       (analyzeFunctionalChanges old_content new_content ''javascript'') = Inr [''axios'']
   \<and> map_sum id removedFunctions
       (analyzeFunctionalChanges old_content new_content ''javascript'') = Inr []
   \<and> map_sum id removedClasses
       (analyzeFunctionalChanges old_content new_content ''javascript'') = Inr []
   \<and> map_sum id complexityChange
       (analyzeFunctionalChanges old_content new_content ''javascript'')
       = Inr (int (calculateComplexityFC new_content) - int (calculateComplexityFC old_content))
   \<and> map_sum id purposeChange
       (analyzeFunctionalChanges old_content new_content ''javascript'')
       = Inr (Some (detectFilePurpose [] old_content, detectFilePurpose [] new_content))
   \<and> detectFilePurpose [] old_content = [GenericModule]
   \<and> detectFilePurpose [] new_content = [ApiCommunication]"
  by (simp add: scenario_result old_purpose new_purpose old_complexity new_complexity)

text \<open>
  The claim as written expects the list of added functions to hold \<^verbatim>\<open>bar\<close> once and
  the purpose change to be null. The method pattern of \<^verbatim>\<open>extractFunctions\<close> matches
  \<^verbatim>\<open>bar(){\<close> a second time, and the purpose tags of the two contents differ.
\<close>

theorem functional_changes_scenario_counterexample:
  "map_sum id addedFunctions
       (analyzeFunctionalChanges old_content new_content ''javascript'') = Inr [''bar'', ''bar'']
   \<and> map_sum id purposeChange
       (analyzeFunctionalChanges old_content new_content ''javascript'')
       = Inr (Some ([GenericModule], [ApiCommunication]))"
  by (simp add: scenario_result)

section \<open>Properties of \<^verbatim>\<open>analyzeFiles\<close>\<close>

text \<open>
  C5. For an added file the one content read is at the source ref; for a deleted file the
  one content read is at the target ref, and the record gets no code analysis, no
  comparison and no functional changes from it; for a renamed file no content is read
  and the record has no content analysis, an empty \<^verbatim>\<open>changes\<close> object and no
  functional changes.
\<close>

theorem analyzeFile_reads_by_status:
  "fst (analyzeFile gshow src tgt (file \<lparr> fd_status := Added \<rparr>)) = [(src, fd_path file)]
   \<and> fst (analyzeFile gshow src tgt (file \<lparr> fd_status := Deleted \<rparr>)) = [(tgt, fd_path file)]
   \<and> (case snd (analyzeFile gshow src tgt (file \<lparr> fd_status := Deleted \<rparr>)) of
        Inl e \<Rightarrow> True
      | Inr a \<Rightarrow> analysis (changes a) = None \<and> comparison (changes a) = None
                 \<and> functionalChanges a = None)
   \<and> fst (analyzeFile gshow src tgt (file \<lparr> fd_status := Renamed \<rparr>)) = []
   \<and> map_sum id contentAnalysis (snd (analyzeFile gshow src tgt (file \<lparr> fd_status := Renamed \<rparr>)))
       = Inr None
   \<and> map_sum id changes (snd (analyzeFile gshow src tgt (file \<lparr> fd_status := Renamed \<rparr>)))
       = Inr \<lparr> analysis = None, comparison = None \<rparr>
   \<and> map_sum id functionalChanges
         (snd (analyzeFile gshow src tgt (file \<lparr> fd_status := Renamed \<rparr>))) = Inr None"
proof -
  define base where "base st =
    \<lparr> path = fd_path file, status = st, extension = getFileExtension (fd_path file),
      language = detectLanguage (fd_path file),
      changes = \<lparr> analysis = None, comparison = None \<rparr>,
      additions = (case fd_additions file of None \<Rightarrow> 0 | Some n \<Rightarrow> n),
      deletions = (case fd_deletions file of None \<Rightarrow> 0 | Some n \<Rightarrow> n),
      diff = (case fd_diff file of None \<Rightarrow> [] | Some d \<Rightarrow> d),
      contentAnalysis = None, functionalChanges = None \<rparr>" for st
  have unfold: "analyzeFile gshow src tgt (file \<lparr> fd_status := st \<rparr>) =
      next_do (analyze_new_content gshow src tgt (base st)) (\<lambda>fa1.
      next_do (analyze_modification gshow src tgt fa1) (\<lambda>fa2.
      next_do (analyze_deleted gshow src tgt fa2) (\<lambda>fa3.
        done_with (file_analysis.extend fa3 \<lparr> impact = calculateImpact fa3 \<rparr>))))" for st
    by (simp add: analyzeFile_def base_def Let_def)
  have added: "fst (analyzeFile gshow src tgt (file \<lparr> fd_status := Added \<rparr>)) = [(src, fd_path file)]"
  proof -
    have st: "status (base Added) = Added" "path (base Added) = fd_path file"
      by (simp_all add: base_def)
    from analyze_new_content_added [OF st(1), of gshow src tgt] st(2)
    show ?thesis
      unfolding unfold [of Added] next_do_reads
      by (auto simp: analyze_modification_other analyze_deleted_other done_with_reads
          next_do_reads done_with_def split: sum.splits)
  qed
  have st_d: "status (base Deleted) = Deleted" "path (base Deleted) = fd_path file"
    "changes (base Deleted) = \<lparr> analysis = None, comparison = None \<rparr>"
    "functionalChanges (base Deleted) = None"
    by (simp_all add: base_def)
  have del_unfold: "analyzeFile gshow src tgt (file \<lparr> fd_status := Deleted \<rparr>) =
      next_do (analyze_deleted gshow src tgt (base Deleted)) (\<lambda>fa3.
        done_with (file_analysis.extend fa3 \<lparr> impact = calculateImpact fa3 \<rparr>))"
    unfolding unfold [of Deleted]
    by (simp add: analyze_new_content_other analyze_modification_other st_d next_do_pure)
  have deleted: "fst (analyzeFile gshow src tgt (file \<lparr> fd_status := Deleted \<rparr>)) = [(tgt, fd_path file)]"
    unfolding del_unfold next_do_reads
    using analyze_deleted_deleted [OF st_d(1), of gshow src tgt] st_d(2)
    by (auto simp: done_with_reads split: sum.splits)
  have deleted_only: "(case snd (analyzeFile gshow src tgt (file \<lparr> fd_status := Deleted \<rparr>)) of
        Inl e \<Rightarrow> True
      | Inr a \<Rightarrow> analysis (changes a) = None \<and> comparison (changes a) = None
                 \<and> functionalChanges a = None)"
    unfolding del_unfold
    using analyze_deleted_deleted [OF st_d(1), of gshow src tgt] st_d(3) st_d(4)
    by (cases "analyze_deleted gshow src tgt (base Deleted)")
       (auto simp: next_do_def done_with_def file_analysis.defs split: sum.splits)
  have st_r: "status (base Renamed) = Renamed" by (simp add: base_def)
  have renamed: "analyzeFile gshow src tgt (file \<lparr> fd_status := Renamed \<rparr>) =
      ([], Inr (file_analysis.extend (base Renamed) \<lparr> impact = calculateImpact (base Renamed) \<rparr>))"
    unfolding unfold [of Renamed]
    by (simp add: analyze_new_content_other analyze_modification_other analyze_deleted_other
        st_r next_do_pure done_with_def)
  have ren_fields: "contentAnalysis (file_analysis.extend (base Renamed) x) = None"
    "changes (file_analysis.extend (base Renamed) x) = \<lparr> analysis = None, comparison = None \<rparr>"
    "functionalChanges (file_analysis.extend (base Renamed) x) = None" for x :: "\<lparr> impact :: impact_rec \<rparr>"
    by (simp_all add: base_def file_analysis.defs)
  show ?thesis
    using added deleted deleted_only by (simp add: renamed ren_fields)
qed

theorem analyzeFile_reads_witness:
  "fst (analyzeFile example_show ''feature'' ''main'' added_file) = [(''feature'', ''src/new.js'')]
   \<and> fst (analyzeFile example_show ''feature'' ''main'' deleted_file) = [(''main'', ''src/old.js'')]
   \<and> map_sum id (map_option fc_type \<circ> contentAnalysis)
         (snd (analyzeFile example_show ''feature'' ''main'' deleted_file)) = Inr (Some ''javascript'')"
proof -
  have a: "added_file \<lparr> fd_status := Added \<rparr> = added_file"
    by (simp add: added_file_def)
  have d: "deleted_file \<lparr> fd_status := Deleted \<rparr> = deleted_file"
    by (simp add: deleted_file_def)
  from analyzeFile_reads_by_status [of example_show "''feature''" "''main''" added_file]
  have "fst (analyzeFile example_show ''feature'' ''main'' added_file) = [(''feature'', fd_path added_file)]"
    unfolding a by blast
  moreover
  from analyzeFile_reads_by_status [of example_show "''feature''" "''main''" deleted_file]
  have "fst (analyzeFile example_show ''feature'' ''main'' deleted_file) = [(''main'', fd_path deleted_file)]"
    unfolding d by blast
  ultimately show ?thesis
    using deleted_example_classified by (simp add: added_file_def deleted_file_def)
qed

section \<open>Properties of the commit patterns\<close>

text \<open>
  C7. The type table of \<^verbatim>\<open>detectCommitType\<close> classifies the message
  \<^verbatim>\<open>revert: undo the last change\<close> as \<^verbatim>\<open>revert\<close>, so in a list of this one commit every
  commit matches the table; \<^verbatim>\<open>detectCommitPatterns\<close> tests the messages against a
  pattern of its own, which has no \<^verbatim>\<open>revert\<close>, and reports no pattern.
\<close>

theorem detectCommitPatterns_misses_revert:
  "detectCommitType (message revert_commit) = ''revert''
   \<and> detectCommitPatterns [revert_commit] = []"
  by (simp add: revert_type detectCommitPatterns_def revert_not_conventional revert_no_ticket)

section \<open>Properties of \<^verbatim>\<open>getCommitsBetweenBranches\<close>\<close>



end
